theory Spec2Isabelle
  imports Complex_Main "HOL-Library.Multiset" "HOL-Library.Product_Lexorder"
    "HOL-Library.Log_Nat"
begin

section \<open>JavaScript numbers\<close>

text \<open>
  The services compute with JavaScript numbers. The model keeps the special values the
  code can produce (\<open>NaN\<close> from \<open>0/0\<close> and from arithmetic on \<open>undefined\<close>, the two
  infinities from a division of a non-zero number by zero) and idealises the finite
  numbers as reals: overflow and the sign of zero are not modelled, and the operations
  of this section do not round. The monthly aggregation and the price analysis, whose
  results depend on the rounding of each operation, round every result to the nearest
  double (section on double-precision rounding below).
  Values read from the input observations are finite numbers and have type \<open>real\<close>.
\<close>

datatype jsnum = Num real | PosInf | NegInf | NaN

instantiation jsnum :: "{plus, uminus, minus, times, inverse, ord}"
begin

fun plus_jsnum :: "jsnum \<Rightarrow> jsnum \<Rightarrow> jsnum" where
  "plus_jsnum (Num a) (Num b) = Num (a + b)"
| "plus_jsnum NaN _ = NaN"
| "plus_jsnum _ NaN = NaN"
| "plus_jsnum PosInf NegInf = NaN"
| "plus_jsnum NegInf PosInf = NaN"
| "plus_jsnum PosInf _ = PosInf"
| "plus_jsnum _ PosInf = PosInf"
| "plus_jsnum NegInf _ = NegInf"
| "plus_jsnum _ NegInf = NegInf"

fun uminus_jsnum :: "jsnum \<Rightarrow> jsnum" where
  "uminus_jsnum (Num a) = Num (- a)"
| "uminus_jsnum PosInf = NegInf"
| "uminus_jsnum NegInf = PosInf"
| "uminus_jsnum NaN = NaN"

definition minus_jsnum :: "jsnum \<Rightarrow> jsnum \<Rightarrow> jsnum" where
  "minus_jsnum a b = a + (- b)"

fun times_jsnum :: "jsnum \<Rightarrow> jsnum \<Rightarrow> jsnum" where
  "times_jsnum (Num a) (Num b) = Num (a * b)"
| "times_jsnum NaN _ = NaN"
| "times_jsnum _ NaN = NaN"
| "times_jsnum PosInf (Num b) = (if b = 0 then NaN else if 0 < b then PosInf else NegInf)"
| "times_jsnum NegInf (Num b) = (if b = 0 then NaN else if 0 < b then NegInf else PosInf)"
| "times_jsnum (Num a) PosInf = (if a = 0 then NaN else if 0 < a then PosInf else NegInf)"
| "times_jsnum (Num a) NegInf = (if a = 0 then NaN else if 0 < a then NegInf else PosInf)"
| "times_jsnum PosInf PosInf = PosInf"
| "times_jsnum NegInf NegInf = PosInf"
| "times_jsnum PosInf NegInf = NegInf"
| "times_jsnum NegInf PosInf = NegInf"

fun divide_jsnum :: "jsnum \<Rightarrow> jsnum \<Rightarrow> jsnum" where
  "divide_jsnum (Num a) (Num b) =
     (if b \<noteq> 0 then Num (a / b)
      else if a = 0 then NaN else if 0 < a then PosInf else NegInf)"
| "divide_jsnum NaN _ = NaN"
| "divide_jsnum _ NaN = NaN"
| "divide_jsnum (Num a) _ = Num 0"
| "divide_jsnum PosInf (Num b) = (if 0 \<le> b then PosInf else NegInf)"
| "divide_jsnum NegInf (Num b) = (if 0 \<le> b then NegInf else PosInf)"
| "divide_jsnum _ _ = NaN"

definition inverse_jsnum :: "jsnum \<Rightarrow> jsnum" where
  "inverse_jsnum a = divide (Num 1) a"

fun less_jsnum :: "jsnum \<Rightarrow> jsnum \<Rightarrow> bool" where
  "less_jsnum (Num a) (Num b) = (a < b)"
| "less_jsnum NaN _ = False"
| "less_jsnum _ NaN = False"
| "less_jsnum _ NegInf = False"
| "less_jsnum PosInf _ = False"
| "less_jsnum NegInf _ = True"
| "less_jsnum _ PosInf = True"

fun less_eq_jsnum :: "jsnum \<Rightarrow> jsnum \<Rightarrow> bool" where
  "less_eq_jsnum (Num a) (Num b) = (a \<le> b)"
| "less_eq_jsnum NaN _ = False"
| "less_eq_jsnum _ NaN = False"
| "less_eq_jsnum NegInf _ = True"
| "less_eq_jsnum _ PosInf = True"
| "less_eq_jsnum _ _ = False"

instance ..

end

text \<open>\<open>Math.round\<close> rounds to the nearest integer, a tie towards \<open>+\<infinity>\<close>.\<close>

fun Math_round :: "jsnum \<Rightarrow> jsnum" where
  "Math_round (Num a) = Num (of_int \<lfloor>a + 1 / 2\<rfloor>)"
| "Math_round x = x"

text \<open>\<open>Math.max\<close> and \<open>Math.min\<close> return \<open>NaN\<close> as soon as one argument is \<open>NaN\<close>.\<close>

fun Math_max :: "jsnum \<Rightarrow> jsnum \<Rightarrow> jsnum" where
  "Math_max NaN _ = NaN"
| "Math_max _ NaN = NaN"
| "Math_max a b = (if a < b then b else a)"

fun Math_min :: "jsnum \<Rightarrow> jsnum \<Rightarrow> jsnum" where
  "Math_min NaN _ = NaN"
| "Math_min _ NaN = NaN"
| "Math_min a b = (if b < a then b else a)"

fun Math_abs :: "jsnum \<Rightarrow> jsnum" where
  "Math_abs (Num a) = Num \<bar>a\<bar>"
| "Math_abs NaN = NaN"
| "Math_abs _ = PosInf"

fun Math_sqrt :: "jsnum \<Rightarrow> jsnum" where
  "Math_sqrt (Num a) = (if a < 0 then NaN else Num (sqrt a))"
| "Math_sqrt PosInf = PosInf"
| "Math_sqrt _ = NaN"

text \<open>\<open>Math.pow(x, 2)\<close>.\<close>

definition Math_pow2 :: "jsnum \<Rightarrow> jsnum" where
  "Math_pow2 x = x * x"

text \<open>Truthiness of a number: \<open>0\<close> and \<open>NaN\<close> are falsy; \<open>a || b\<close> on numbers.\<close>

fun truthy :: "jsnum \<Rightarrow> bool" where
  "truthy (Num a) = (a \<noteq> 0)"
| "truthy NaN = False"
| "truthy _ = True"

definition js_or :: "jsnum \<Rightarrow> jsnum \<Rightarrow> jsnum" where
  "js_or a b = (if truthy a then a else b)"

text \<open>
  An array read \<open>xs[i]\<close>. Out of range it is \<open>undefined\<close>, which every use in these
  services feeds to arithmetic or to \<open>Math.max\<close>, where it is \<open>NaN\<close>.
\<close>

definition js_nth :: "jsnum list \<Rightarrow> int \<Rightarrow> jsnum" where
  "js_nth xs i = (if 0 \<le> i \<and> i < int (length xs) then xs ! nat i else NaN)"

text \<open>\<open>xs.slice(start, end)\<close>, with JavaScript's treatment of negative and large indices.\<close>

definition js_slice :: "'a list \<Rightarrow> int \<Rightarrow> int \<Rightarrow> 'a list" where
  "js_slice xs start end' =
     (let n = int (length xs);
          k = (if start < 0 then max (n + start) 0 else min start n);
          e = (if end' < 0 then max (n + end') 0 else min end' n)
      in take (nat (e - k)) (drop (nat k) xs))"

text \<open>\<open>xs.reduce((sum, x) => sum + x, 0)\<close>.\<close>

definition reduce_sum :: "jsnum list \<Rightarrow> jsnum" where
  "reduce_sum xs = foldl (+) (Num 0) xs"

section \<open>Double-precision rounding\<close>

text \<open>
  A JavaScript number is an IEEE 754 double, and every arithmetic operation returns the
  double nearest to its exact result, a tie going to the even significand. \<open>fl x\<close> is
  that double: with \<open>e = binade x\<close> the exponent of \<open>x\<close> (\<open>2 ^ e \<le> |x| < 2 ^ (e + 1)\<close>,
  lemma \<open>binade_eqI\<close>), the doubles around \<open>x\<close> are the multiples of \<open>2 ^ (e - 52)\<close>,
  and of \<open>2 ^ (- 1074)\<close> below \<open>2 ^ (- 1022)\<close> (gradual underflow). A result beyond the
  largest double (about \<open>1.8e308\<close>), which is \<open>Infinity\<close> in JavaScript, is not
  modelled. A number literal of the code, such as \<open>0.1\<close>, is the double \<open>fl 0.1\<close>.
\<close>

definition pow2 :: "int \<Rightarrow> real" where
  "pow2 k = (if 0 \<le> k then 2 ^ nat k else 1 / 2 ^ nat (- k))"

text \<open>
  The exponent is read from the length in bits (\<open>floorlog 2\<close>) of \<open>\<lfloor>|x|\<rfloor>\<close>, and of
  \<open>\<lceil>1 / |x|\<rceil> - 1\<close> when \<open>|x| < 1\<close>.
\<close>

definition binade :: "real \<Rightarrow> int" where
  "binade x =
     (if 1 \<le> \<bar>x\<bar> then int (floorlog 2 (nat \<lfloor>\<bar>x\<bar>\<rfloor>)) - 1
      else - int (floorlog 2 (nat (\<lceil>1 / \<bar>x\<bar>\<rceil> - 1))))"

definition roundTiesToEven :: "real \<Rightarrow> int" where
  "roundTiesToEven r =
     (let f = \<lfloor>r\<rfloor>
      in if r - of_int f < 1 / 2 then f
         else if 1 / 2 < r - of_int f then f + 1
         else if even f then f else f + 1)"

definition fl :: "real \<Rightarrow> real" where
  "fl x =
     (if x = 0 then 0
      else let q = pow2 (max (binade x) (- 1022) - 52)
           in of_int (roundTiesToEven (x / q)) * q)"

text \<open>The rounding of a result that may be \<open>NaN\<close> or infinite.\<close>

fun fl_num :: "jsnum \<Rightarrow> jsnum" where
  "fl_num (Num a) = Num (fl a)"
| "fl_num x = x"

text \<open>\<open>xs.reduce((sum, x) => sum + x, 0)\<close> in double arithmetic: a sum from left to right.\<close>

definition fl_sum :: "real list \<Rightarrow> real" where
  "fl_sum xs = foldl (\<lambda>sum x. fl (sum + x)) 0 xs"

text \<open>
  Amounts that a sum of doubles adds without rounding: whole numbers whose absolute
  values add up to at most \<open>2 ^ 53\<close>, so that every partial sum is a whole number that
  a double holds.
\<close>

definition exact_total :: "real list \<Rightarrow> bool" where
  "exact_total vs = (list_all (\<lambda>v. v = of_int \<lfloor>v\<rfloor>) vs \<and> sum_list (map abs vs) \<le> 2 ^ 53)"

section \<open>ARIMAForecastService: preparing the series, the model cache\<close>

text \<open>
  A sales record of this service carries a date (modelled by its time value, the number
  \<open>new Date(item.date)\<close> yields), a \<open>sales\<close> field (\<open>None\<close> when \<open>parseFloat\<close> finds no
  number in it) and a SKU. Arrays are objects on a heap: the caller's array and the
  array a function receives are the same reference.
\<close>

record sale =
  sale_date :: int
  sale_sales :: "real option"
  sale_sku :: string

type_synonym ref = nat

type_synonym heap = "ref \<Rightarrow> sale list"

text \<open>\<open>parseFloat(item.sales) || 0\<close>\<close>

definition parseFloat_or0 :: "real option \<Rightarrow> real" where
  "parseFloat_or0 v = (case v of None \<Rightarrow> 0 | Some r \<Rightarrow> r)"

record prepared =
  p_values :: "real list"
  p_dates :: "int list"
  p_sortedData :: ref

text \<open>
  \<open>prepareTimeSeriesData\<close>: \<open>salesData.sort(...)\<close> sorts the array it is called on, in
  place and stably, and returns that same array; \<open>sortedData\<close> is the caller's array.
\<close>

definition prepareTimeSeriesData :: "heap \<Rightarrow> ref \<Rightarrow> prepared \<times> heap" where
  "prepareTimeSeriesData h salesData =
     (let h' = h(salesData := sort_key sale_date (h salesData));
          sortedData = salesData
      in (\<lparr>p_values = map (\<lambda>item. parseFloat_or0 (sale_sales item)) (h' sortedData),
           p_dates = map sale_date (h' sortedData),
           p_sortedData = sortedData\<rparr>, h'))"

text \<open>
  \<open>calculateStandardDeviation\<close>, of the ARIMA service.
\<close>

definition calculateStandardDeviation :: "real list \<Rightarrow> jsnum" where
  "calculateStandardDeviation vs =
     (let mean = reduce_sum (map Num vs) / Num (real (length vs));
          squaredDiffs = map (\<lambda>val. Math_pow2 (Num val - mean)) vs;
          variance = reduce_sum squaredDiffs / Num (real (length vs))
      in Math_sqrt variance)"

text \<open>
  Thrown errors are values: a function that can throw returns \<open>error + 'a\<close>.
  The \<open>arima\<close> package is not part of the repository: its \<open>train\<close> and \<open>predict\<close>
  are parameters (each may throw), the type \<open>'m\<close> is that of a trained model.
  So is the date arithmetic of the forecast dates (\<open>setMonth\<close>, \<open>toISOString\<close>).
\<close>

datatype error = Error string

record 'm arima_lib =
  lib_train :: "real list \<Rightarrow> error + 'm"
  lib_predict :: "'m \<Rightarrow> nat \<Rightarrow> error + jsnum list"

record forecast_point =
  fp_date :: string
  fp_sales :: jsnum
  fp_upperBound :: jsnum
  fp_lowerBound :: jsnum

record arima_result =
  res_historical :: ref
  res_forecast :: "forecast_point list"
  res_model_type :: string
  res_lastTrainingDate :: int

text \<open>The service object: the heap of arrays and \<open>this.models\<close>, the cache keyed by product id.\<close>

record 'm service =
  heap_of :: heap
  models :: "string \<rightharpoonup> 'm"

text \<open>\<open>this.models.get(productId)\<close>; a \<open>null\<close> product id is never a key.\<close>

definition models_get :: "'m service \<Rightarrow> string option \<Rightarrow> 'm option" where
  "models_get st productId = (case productId of None \<Rightarrow> None | Some p \<Rightarrow> models st p)"

text \<open>\<open>if (productId) this.models.set(productId, model)\<close>: \<open>null\<close> and the empty string are falsy.\<close>

definition models_set :: "'m service \<Rightarrow> string option \<Rightarrow> 'm \<Rightarrow> 'm service" where
  "models_set st productId m =
     (case productId of
        None \<Rightarrow> st
      | Some p \<Rightarrow> if p = [] then st else st\<lparr>models := (models st)(p \<mapsto> m)\<rparr>)"

text \<open>
  \<open>generateForecast\<close> of the ARIMA service. Whatever is thrown inside is logged and
  thrown again; the effects before the throw (the sorted array, a cached model) stay.
\<close>

definition ARIMA_generateForecast ::
  "'m arima_lib \<Rightarrow> (int \<Rightarrow> nat \<Rightarrow> string) \<Rightarrow> 'm service \<Rightarrow> ref \<Rightarrow> nat \<Rightarrow> string option
     \<Rightarrow> (error + arima_result) \<times> 'm service" where
  "ARIMA_generateForecast lib isoDateMonthsAfter st salesData periods productId =
     (let (prep, h') = prepareTimeSeriesData (heap_of st) salesData;
          st1 = st\<lparr>heap_of := h'\<rparr>
      in if length (p_values prep) < 3
         then (Inl (Error ''Insufficient data for forecasting (minimum 3 data points required)''), st1)
         else
           (case (case models_get st1 productId of
                    Some m \<Rightarrow> (Inr m, st1)
                  | None \<Rightarrow>
                      (case lib_train lib (p_values prep) of
                         Inl e \<Rightarrow> (Inl e, st1)
                       | Inr m \<Rightarrow> (Inr m, models_set st1 productId m))) of
              (Inl e, st2) \<Rightarrow> (Inl e, st2)
            | (Inr model, st2) \<Rightarrow>
                (case lib_predict lib model periods of
                   Inl e \<Rightarrow> (Inl e, st2)
                 | Inr forecast \<Rightarrow>
                     (let lastDate = last (p_dates prep);
                          forecastDates = map (isoDateMonthsAfter lastDate) [1..<periods + 1];
                          stdDev = calculateStandardDeviation (p_values prep);
                          confidenceInterval = stdDev * Num 1.96;
                          forecastData =
                            map (\<lambda>(date, index).
                                   \<lparr>fp_date = date,
                                    fp_sales = Math_max (Num 0) (js_nth forecast index),
                                    fp_upperBound =
                                      Math_max (Num 0) (js_nth forecast index + confidenceInterval),
                                    fp_lowerBound =
                                      Math_max (Num 0) (js_nth forecast index - confidenceInterval)\<rparr>)
                                (zip forecastDates (map int [0..<length forecastDates]))
                      in (Inr \<lparr>res_historical = p_sortedData prep,
                                res_forecast = forecastData,
                                res_model_type = ''ARIMA'',
                                res_lastTrainingDate = last (p_dates prep)\<rparr>, st2)))))"

text \<open>\<open>clearCache\<close>\<close>

definition clearCache :: "'m service \<Rightarrow> 'm service" where
  "clearCache st = st\<lparr>models := Map.empty\<rparr>"

text \<open>
  A stand-in for the \<open>arima\<close> package, to run the service on concrete data: the trained
  model is the last training value, and it predicts that value for every period.
\<close>

definition last_value_lib :: "real arima_lib" where
  "last_value_lib =
     \<lparr>lib_train = (\<lambda>vs. Inr (last vs)), lib_predict = (\<lambda>m n. Inr (replicate n (Num m)))\<rparr>"

text \<open>A stand-in for the date arithmetic, which the theorems on the quantities do not read.\<close>

definition no_dates :: "int \<Rightarrow> nat \<Rightarrow> string" where
  "no_dates lastDate i = []"

text \<open>Arrays of sales records on the heap, to run the service on.\<close>

definition later_first :: heap where
  "later_first =
     (\<lambda>r. [\<lparr>sale_date = 2, sale_sales = Some 20, sale_sku = ''A''\<rparr>,
            \<lparr>sale_date = 1, sale_sales = Some 10, sale_sku = ''A''\<rparr>])"

definition two_arrays :: heap where
  "two_arrays =
     (\<lambda>r. if r = 0
          then [\<lparr>sale_date = 1, sale_sales = Some 1, sale_sku = ''A''\<rparr>,
                \<lparr>sale_date = 2, sale_sales = Some 2, sale_sku = ''A''\<rparr>,
                \<lparr>sale_date = 3, sale_sales = Some 3, sale_sku = ''A''\<rparr>]
          else [\<lparr>sale_date = 1, sale_sales = Some 7, sale_sku = ''A''\<rparr>,
                \<lparr>sale_date = 2, sale_sales = Some 8, sale_sku = ''A''\<rparr>,
                \<lparr>sale_date = 3, sale_sales = Some 9, sale_sku = ''A''\<rparr>])"

text \<open>The forecast quantities of a result, \<open>None\<close> when the call threw.\<close>

definition forecast_sales :: "(error + arima_result) \<Rightarrow> jsnum list option" where
  "forecast_sales r = (case r of Inl e \<Rightarrow> None | Inr res \<Rightarrow> Some (map fp_sales (res_forecast res)))"

section \<open>PythonForecastService: the remote computation service\<close>

text \<open>
  The remote call is a parameter: \<open>fetch\<close> stands for the request and the parsing of its
  JSON answer, and returns an error when the request is rejected, times out or the
  answer does not parse. A point of the answer carries a \<open>sales\<close> field, \<open>None\<close> when
  \<open>parseFloat\<close> finds no number in it.
\<close>

record py_point =
  pp_date :: string
  pp_sales :: "real option"

record py_result =
  py_success :: bool
  py_error :: "string option"
  py_forecast :: "py_point list option"

type_synonym fetch = "sale list \<times> nat \<times> string option \<Rightarrow> error + py_result"

text \<open>\<open>generateForecast\<close> of the Python service: the \<open>catch\<close> logs and throws again.\<close>

definition Python_generateForecast ::
  "fetch \<Rightarrow> sale list \<Rightarrow> nat \<Rightarrow> string option \<Rightarrow> error + py_result" where
  "Python_generateForecast fetch salesData periods productId =
     (case fetch (salesData, periods, productId) of
        Inl e \<Rightarrow> Inl e
      | Inr result \<Rightarrow>
          if \<not> py_success result
          then Inl (Error (case py_error result of
                             None \<Rightarrow> ''Forecasting failed''
                           | Some m \<Rightarrow> if m = [] then ''Forecasting failed'' else m))
          else Inr result)"

definition Python_generateEnsembleForecast ::
  "fetch \<Rightarrow> sale list \<Rightarrow> nat \<Rightarrow> string option \<Rightarrow> error + py_result" where
  "Python_generateEnsembleForecast fetch salesData periods productId =
     Python_generateForecast fetch salesData periods productId"

section \<open>ForecastAccuracyService: the accuracy report\<close>

datatype category = Good | Medium | Poor

record comparison =
  cmp_actual :: real
  cmp_forecast :: real
  cmp_date :: int

record accuracy_report =
  ar_mae :: jsnum
  ar_mape :: jsnum
  ar_rmse :: jsnum
  ar_accuracy :: category
  ar_confidence :: jsnum
  ar_recommendation :: string
  ar_dataPoints :: "nat option"
  ar_comparisonData :: "comparison list option"
  ar_trainingMonths :: "nat option"
  ar_validationMonths :: "nat option"
  ar_totalMonths :: "nat option"

text \<open>The object every early return of \<open>calculateForecastAccuracy\<close> builds, up to its text.\<close>

definition zero_report :: "string \<Rightarrow> accuracy_report" where
  "zero_report text =
     \<lparr>ar_mae = Num 0, ar_mape = Num 0, ar_rmse = Num 0, ar_accuracy = Poor,
      ar_confidence = Num 0, ar_recommendation = text, ar_dataPoints = None,
      ar_comparisonData = None, ar_trainingMonths = None, ar_validationMonths = None,
      ar_totalMonths = None\<rparr>"

text \<open>\<open>xs.reduce((sum, x) => sum + x, 0)\<close> on finite numbers.\<close>

definition real_sum :: "real list \<Rightarrow> real" where
  "real_sum xs = foldl (+) 0 xs"

definition calculateMAE :: "comparison list \<Rightarrow> jsnum" where
  "calculateMAE comparisonData =
     (let absoluteErrors = map (\<lambda>item. \<bar>cmp_actual item - cmp_forecast item\<bar>) comparisonData
      in Num (real_sum absoluteErrors) / Num (real (length absoluteErrors)))"

definition calculateMAPE :: "comparison list \<Rightarrow> jsnum" where
  "calculateMAPE comparisonData =
     (let percentageErrors =
            map (\<lambda>item. \<bar>(cmp_actual item - cmp_forecast item) / cmp_actual item\<bar> * 100)
              (filter (\<lambda>item. cmp_actual item > 0) comparisonData)
      in if length percentageErrors > 0
         then Num (real_sum percentageErrors) / Num (real (length percentageErrors))
         else Num 0)"

definition calculateRMSE :: "comparison list \<Rightarrow> jsnum" where
  "calculateRMSE comparisonData =
     (let squaredErrors = map (\<lambda>item. (cmp_actual item - cmp_forecast item)\<^sup>2) comparisonData;
          meanSquaredError = Num (real_sum squaredErrors) / Num (real (length squaredErrors))
      in Math_sqrt meanSquaredError)"

definition categorizeAccuracy :: "jsnum \<Rightarrow> category" where
  "categorizeAccuracy mape =
     (if mape \<le> Num 10 then Good else if mape \<le> Num 25 then Medium else Poor)"

definition FAS_calculateConfidence :: "nat \<Rightarrow> jsnum \<Rightarrow> nat \<Rightarrow> jsnum" where
  "FAS_calculateConfidence dataPoints mape trainingMonths =
     (if dataPoints < 2 then Num 0
      else
        (let dataConfidence = Math_min (Num (real dataPoints / 6)) (Num 1);
             trainingConfidence = Math_min (Num (real trainingMonths / 12)) (Num 1);
             accuracyFactor =
               (if mape \<le> Num 10 then Num 1 else if mape \<le> Num 25 then Num 0.8 else Num 0.6)
         in (dataConfidence * Num 0.4 + trainingConfidence * Num 0.6) * accuracyFactor))"

text \<open>
  \<open>generateRecommendation\<close>. \<open>Number.prototype.toFixed\<close> is a parameter; \<open>sku ||
  'this product'\<close> takes the default for \<open>null\<close> and for the empty string.
\<close>

definition generateRecommendation ::
  "(jsnum \<Rightarrow> nat \<Rightarrow> string) \<Rightarrow> category \<Rightarrow> jsnum \<Rightarrow> string option \<Rightarrow> string" where
  "generateRecommendation toFixed accuracy mape sku =
     (let productName =
            (case sku of None \<Rightarrow> ''this product''
             | Some s \<Rightarrow> if s = [] then ''this product'' else s)
      in case accuracy of
           Good \<Rightarrow> ''Forecast for '' @ productName @ '' is highly reliable ('' @ toFixed mape 1
                   @ ''% error). Safe to use for planning and inventory decisions.''
         | Medium \<Rightarrow> ''Forecast for '' @ productName @ '' has moderate reliability (''
                   @ toFixed mape 1 @ ''% error). Use with caution and consider additional factors.''
         | Poor \<Rightarrow> ''Forecast for '' @ productName @ '' has low reliability ('' @ toFixed mape 1
                   @ ''% error). Consider alternative forecasting methods or more data.'')"

text \<open>
  \<open>Math.floor(n * 0.7)\<close>, in exact arithmetic: \<open>\<lfloor>7n/10\<rfloor>\<close> (lemma \<open>splitIndex_div\<close>).
\<close>

definition splitIndex :: "nat \<Rightarrow> nat" where
  "splitIndex n = nat \<lfloor>real n * 7 / 10\<rfloor>"

text \<open>
  \<open>calculateForecastAccuracy\<close>. Both remote calls are awaited outside any \<open>try\<close>: what
  they throw leaves this function as it is. The argument \<open>forecastData\<close> is not read.
\<close>

definition calculateForecastAccuracy ::
  "fetch \<Rightarrow> (jsnum \<Rightarrow> nat \<Rightarrow> string) \<Rightarrow> sale list \<Rightarrow> 'f \<Rightarrow> string option
     \<Rightarrow> error + accuracy_report" where
  "calculateForecastAccuracy fetch toFixed historicalData forecastData sku =
     (if historicalData = []
      then Inr (zero_report ''Insufficient historical data for accuracy assessment'')
      else
        (case Python_generateEnsembleForecast fetch historicalData 12 sku of
           Inl e \<Rightarrow> Inl e
         | Inr forecastResult \<Rightarrow>
             if py_forecast forecastResult = None
             then Inr (zero_report ''Forecasting failed - insufficient data or model error'')
             else
               (let k = splitIndex (length historicalData);
                    trainingData = take k historicalData;
                    validationData = drop k historicalData
                in if length validationData < 2
                   then Inr (zero_report ''Insufficient validation data for accuracy assessment'')
                   else
                     (case Python_generateForecast fetch trainingData (length validationData) sku of
                        Inl e \<Rightarrow> Inl e
                      | Inr validationForecast \<Rightarrow>
                          (case py_forecast validationForecast of
                             None \<Rightarrow> Inr (zero_report ''Validation forecasting failed'')
                           | Some fc \<Rightarrow>
                               (let comparisonData =
                                      map (\<lambda>(actual, index).
                                             \<lparr>cmp_actual = parseFloat_or0 (sale_sales actual),
                                              cmp_forecast =
                                                (if index < length fc
                                                 then parseFloat_or0 (pp_sales (fc ! index)) else 0),
                                              cmp_date = sale_date actual\<rparr>)
                                          (zip validationData [0..<length validationData]);
                                    mae = calculateMAE comparisonData;
                                    mape = calculateMAPE comparisonData;
                                    rmse = calculateRMSE comparisonData;
                                    accuracy = categorizeAccuracy mape;
                                    confidence =
                                      FAS_calculateConfidence (length comparisonData) mape
                                        (length trainingData);
                                    recommendation = generateRecommendation toFixed accuracy mape sku
                                in Inr \<lparr>ar_mae = mae, ar_mape = mape, ar_rmse = rmse,
                                         ar_accuracy = accuracy, ar_confidence = confidence,
                                         ar_recommendation = recommendation,
                                         ar_dataPoints = Some (length comparisonData),
                                         ar_comparisonData = Some comparisonData,
                                         ar_trainingMonths = Some (length trainingData),
                                         ar_validationMonths = Some (length validationData),
                                         ar_totalMonths = Some (length historicalData)\<rparr>))))))"

text \<open>
  Stand-ins to run the services on concrete data: a remote service that is down, and
  \<open>toFixed\<close> as it writes the number 0, the only number the theorems format.
\<close>

definition remote_down :: fetch where
  "remote_down request = Inl (Error ''Failed to fetch'')"

definition toFixed_zero :: "jsnum \<Rightarrow> nat \<Rightarrow> string" where
  "toFixed_zero x digits = ''0.'' @ replicate digits CHR ''0''"

text \<open>Five monthly records, each with 10 sold, to run the accuracy calculation on.\<close>

definition five_months :: "sale list" where
  "five_months = map (\<lambda>d. \<lparr>sale_date = d, sale_sales = Some 10, sale_sku = ''A''\<rparr>) [1, 2, 3, 4, 5]"

text \<open>A remote service that answers every request with a forecast of 10 for each period.\<close>

definition remote_tens :: fetch where
  "remote_tens =
     (\<lambda>(salesData, periods, productId).
        Inr \<lparr>py_success = True, py_error = None,
             py_forecast = Some (replicate periods \<lparr>pp_date = [], pp_sales = Some 10\<rparr>)\<rparr>)"

section \<open>Observations and monthly aggregation\<close>

text \<open>
  An ingested observation. Its \<open>revenue\<close> is always set by the ingestion
  (\<open>soldQuantity * price\<close>); \<open>soldRevenue\<close> may be absent. Its numbers are
  doubles. A date is a calendar date,
  the month counted from 0 as \<open>getMonth\<close> does. The key \<open>format(date, 'yyyy-MM')\<close>
  is modelled by the pair of year and month, ordered as the dates
  \<open>new Date(monthKey + '-01')\<close> are.
\<close>

record date =
  d_year :: nat
  d_month :: nat
  d_day :: nat

type_synonym monthKey = "nat \<times> nat"

definition format_yyyy_MM :: "date \<Rightarrow> monthKey" where
  "format_yyyy_MM d = (d_year d, d_month d)"

record observation =
  obs_date :: date
  obs_sku :: string
  obs_soldQuantity :: real
  obs_revenue :: real
  obs_soldRevenue :: "real option"
  obs_price :: real
  obs_cost :: real

text \<open>
  A JavaScript object used as a dictionary is a list of entries in insertion order.
  \<open>upsert k init f obj\<close> is \<open>if (!obj[k]) obj[k] = init\<close> followed by the update \<open>f\<close>
  of \<open>obj[k]\<close>: an existing entry keeps its place, a new one goes last.
\<close>

definition upsert :: "'k \<Rightarrow> 'v \<Rightarrow> ('v \<Rightarrow> 'v) \<Rightarrow> ('k \<times> 'v) list \<Rightarrow> ('k \<times> 'v) list" where
  "upsert k init f obj =
     (case map_of obj k of
        None \<Rightarrow> obj @ [(k, f init)]
      | Some v \<Rightarrow> map (\<lambda>(k', v'). if k' = k then (k', f v') else (k', v')) obj)"

text \<open>
  \<open>sku ? data.filter(item => item.sku === sku) : data\<close>; a \<open>null\<close> or empty SKU is falsy.
\<close>

definition filterBySku :: "observation list \<Rightarrow> string option \<Rightarrow> observation list" where
  "filterBySku data sku =
     (case sku of
        None \<Rightarrow> data
      | Some s \<Rightarrow> if s = [] then data else filter (\<lambda>item. obs_sku item = s) data)"

record sfs_bucket =
  b_soldQuantity :: real
  b_revenue :: real
  b_count :: nat

text \<open>\<open>item.revenue || item.soldRevenue || 0\<close>\<close>

definition revenue_or :: "observation \<Rightarrow> real" where
  "revenue_or item =
     (if obs_revenue item \<noteq> 0 then obs_revenue item
      else case obs_soldRevenue item of None \<Rightarrow> 0 | Some r \<Rightarrow> r)"

text \<open>
  \<open>groupByMonth\<close>: each \<open>+=\<close> adds two doubles and rounds, in the order of the input.
\<close>

definition groupByMonth :: "observation list \<Rightarrow> (monthKey \<times> sfs_bucket) list" where
  "groupByMonth data =
     foldl (\<lambda>monthlyData item.
              upsert (format_yyyy_MM (obs_date item))
                \<lparr>b_soldQuantity = 0, b_revenue = 0, b_count = 0\<rparr>
                (\<lambda>b. \<lparr>b_soldQuantity = fl (b_soldQuantity b + obs_soldQuantity item),
                      b_revenue = fl (b_revenue b + revenue_or item),
                      b_count = b_count b + 1\<rparr>)
                monthlyData)
       [] data"

record series_point =
  sp_date :: monthKey
  sp_soldQuantity :: real
  sp_revenue :: real

text \<open>\<open>prepareTimeSeries\<close> sorts the fresh array that \<open>map\<close> returns.\<close>

definition prepareTimeSeries :: "(monthKey \<times> sfs_bucket) list \<Rightarrow> series_point list" where
  "prepareTimeSeries monthlyData =
     sort_key sp_date
       (map (\<lambda>(monthKey, v).
               \<lparr>sp_date = monthKey, sp_soldQuantity = b_soldQuantity v, sp_revenue = b_revenue v\<rparr>)
          monthlyData)"

section \<open>StatsForecastService: the three models and their combination\<close>

text \<open>An array with the index of each element, for callbacks that take \<open>(x, i)\<close>.\<close>

definition indexed :: "'a list \<Rightarrow> ('a \<times> int) list" where
  "indexed xs = zip xs (map int [0..<length xs])"

definition linearRegression :: "jsnum list \<Rightarrow> jsnum list \<Rightarrow> jsnum \<times> jsnum" where
  "linearRegression xValues yValues =
     (let n = Num (real (length xValues));
          sumX = reduce_sum xValues;
          sumY = reduce_sum yValues;
          sumXY = foldl (\<lambda>sum (x, i). sum + x * js_nth yValues i) (Num 0) (indexed xValues);
          sumXX = foldl (\<lambda>sum x. sum + x * x) (Num 0) xValues;
          slope = (n * sumXY - sumX * sumY) / (n * sumXX - sumX * sumX);
          intercept = (sumY - slope * sumX) / n
      in (slope, intercept))"

text \<open>
  The twelve \<open>{sum, count}\<close> slots after the \<open>forEach\<close> over the quantities, the slot
  of position \<open>i\<close> being \<open>i % 12\<close>.
\<close>

definition monthlySlots :: "real list \<Rightarrow> (real \<times> nat) list" where
  "monthlySlots quantities =
     foldl (\<lambda>slots (qty, i).
              slots[i mod 12 := (fst (slots ! (i mod 12)) + qty, snd (slots ! (i mod 12)) + 1)])
       (replicate 12 (0, 0)) (zip quantities [0..<length quantities])"

text \<open>
  \<open>calculateSeasonalFactors\<close>: the object of factors, keyed by the months whose mean
  is positive, as its entries in key order.
\<close>

definition SFS_calculateSeasonalFactors :: "real list \<Rightarrow> (nat \<times> jsnum) list" where
  "SFS_calculateSeasonalFactors quantities =
     (let monthlyMeans =
            map (\<lambda>(sum, count). if count > 0 then sum / real count else 0)
              (monthlySlots quantities);
          overallMean =
            Num (real_sum monthlyMeans)
              / Num (real (length (filter (\<lambda>mean. mean > 0) monthlyMeans)))
      in map (\<lambda>(mean, month). (month, Num mean / overallMean))
           (filter (\<lambda>(mean, month). mean > 0) (zip monthlyMeans [0..<12])))"

text \<open>\<open>seasonalFactors[month] || 1.0\<close>\<close>

definition factor_or_1 :: "(nat \<times> jsnum) list \<Rightarrow> nat \<Rightarrow> jsnum" where
  "factor_or_1 seasonalFactors month =
     (case map_of seasonalFactors month of None \<Rightarrow> Num 1 | Some f \<Rightarrow> js_or f (Num 1))"

definition generateARIMAForecasts :: "real list \<Rightarrow> nat \<Rightarrow> jsnum list" where
  "generateARIMAForecasts quantities forecastPeriods =
     (let n = length quantities;
          xValues = map (\<lambda>i. Num (real i)) [0..<n];
          yValues = map Num quantities;
          (slope, intercept) = linearRegression xValues yValues;
          seasonalFactors = SFS_calculateSeasonalFactors quantities
      in map (\<lambda>i. let trendValue = intercept + slope * Num (real (n + i - 1));
                       month = (n + i - 1) mod 12;
                       seasonalFactor = factor_or_1 seasonalFactors month
                   in Math_max (Num 0) (Math_round (trendValue * seasonalFactor)))
           [1..<forecastPeriods + 1])"

text \<open>
  \<open>generateETSForecasts\<close>. The state of the smoothing loop is the level, the trend and
  the array of twelve seasonals; \<open>quantities[0]\<close> of an empty array is \<open>undefined\<close>.
\<close>

definition ets_step :: "jsnum list \<Rightarrow> jsnum \<times> jsnum \<times> jsnum list \<Rightarrow> nat \<Rightarrow> jsnum \<times> jsnum \<times> jsnum list" where
  "ets_step qs state i =
     (let (level, trend, seasonals) = state;
          alpha = Num 0.3; beta = Num 0.1; gamma = Num 0.1;
          oldLevel = level;
          level' = alpha * (js_nth qs (int i) - seasonals ! (i mod 12))
                     + (Num 1 - alpha) * (level + trend);
          trend' = beta * (level' - oldLevel) + (Num 1 - beta) * trend;
          seasonals' = seasonals[i mod 12 :=
                         gamma * (js_nth qs (int i) - level')
                           + (Num 1 - gamma) * (seasonals ! (i mod 12))]
      in (level', trend', seasonals'))"

definition generateETSForecasts :: "real list \<Rightarrow> nat \<Rightarrow> jsnum list" where
  "generateETSForecasts quantities forecastPeriods =
     (let qs = map Num quantities;
          level0 = js_nth qs 0;
          seasonals0 =
            foldl (\<lambda>seasonals i. seasonals[i := js_or (js_nth qs (int i)) (Num 0)])
              (replicate 12 (Num 0)) [0..<min 12 (length quantities)];
          (level, trend, seasonals) =
            foldl (ets_step qs) (level0, Num 0, seasonals0) [1..<length quantities]
      in map (\<lambda>i. let forecast = level + trend * Num (real i)
                                    + seasonals ! ((length quantities + i - 1) mod 12)
                   in Math_max (Num 0) (Math_round forecast))
           [1..<forecastPeriods + 1])"

definition calculateTrend :: "real list \<Rightarrow> jsnum list" where
  "calculateTrend quantities =
     (let n = length quantities
      in map (\<lambda>i. let window = int (min 5 (n div 2));
                       start = max 0 (int i - window);
                       end' = min (int n) (int i + window + 1);
                       windowData = js_slice quantities start end'
                   in Num (real_sum windowData) / Num (real (length windowData)))
           [0..<n])"

definition calculateSeasonal :: "real list \<Rightarrow> real list" where
  "calculateSeasonal quantities =
     map (\<lambda>(sum, count). if count > 0 then sum / real count else 0) (monthlySlots quantities)"

definition generateThetaForecasts :: "real list \<Rightarrow> nat \<Rightarrow> jsnum list" where
  "generateThetaForecasts quantities forecastPeriods =
     (let n = length quantities;
          trend = calculateTrend quantities;
          seasonal = calculateSeasonal quantities
      in map (\<lambda>i. let trendComponent =
                         js_nth trend (int n - 1) + (js_nth trend 1 - js_nth trend 0) * Num (real i);
                       seasonalComponent = Num (seasonal ! ((n + i - 1) mod 12));
                       forecast = trendComponent + seasonalComponent
                   in Math_max (Num 0) (Math_round forecast))
           [1..<forecastPeriods + 1])"

definition SFS_calculateVolatility :: "real list \<Rightarrow> jsnum" where
  "SFS_calculateVolatility quantities =
     (let mean = reduce_sum (map Num quantities) / Num (real (length quantities));
          variance = reduce_sum (map (\<lambda>qty. Math_pow2 (Num qty - mean)) quantities)
                       / Num (real (length quantities));
          stdDev = Math_sqrt variance
      in if Num 0 < mean then stdDev / mean else Num 0)"

definition calculateTrendStrength :: "real list \<Rightarrow> jsnum" where
  "calculateTrendStrength quantities =
     (let (slope, intercept) =
            linearRegression (map (\<lambda>i. Num (real i)) [0..<length quantities]) (map Num quantities);
          mean = reduce_sum (map Num quantities) / Num (real (length quantities))
      in if Num 0 < mean then Math_abs slope / mean else Num 0)"

definition calculateSeasonalityStrength :: "real list \<Rightarrow> jsnum" where
  "calculateSeasonalityStrength quantities =
     (let seasonalFactors = SFS_calculateSeasonalFactors quantities;
          factors = map snd seasonalFactors
      in if length factors = 0 then Num 0
         else
           (let mean = reduce_sum factors / Num (real (length factors));
                variance = reduce_sum (map (\<lambda>factor. Math_pow2 (factor - mean)) factors)
                             / Num (real (length factors))
            in Math_sqrt variance / mean))"

record model_weights =
  arima :: real
  ets :: real
  theta :: real

text \<open>\<open>calculateModelWeights\<close>; its second argument, the forecast index, is not read.\<close>

definition calculateModelWeights :: "real list \<Rightarrow> nat \<Rightarrow> model_weights" where
  "calculateModelWeights quantities forecastIndex =
     (let volatility = SFS_calculateVolatility quantities;
          trend = calculateTrendStrength quantities;
          seasonality = calculateSeasonalityStrength quantities
      in if Num 0.5 < volatility then \<lparr>arima = 0.2, ets = 0.5, theta = 0.3\<rparr>
         else if Num 0.3 < trend then \<lparr>arima = 0.5, ets = 0.3, theta = 0.2\<rparr>
         else if Num 0.4 < seasonality then \<lparr>arima = 0.3, ets = 0.4, theta = 0.3\<rparr>
         else \<lparr>arima = 0.4, ets = 0.3, theta = 0.3\<rparr>)"

text \<open>The weighted mean of the three model forecasts of period \<open>i\<close>, rounded.\<close>

definition combine :: "model_weights \<Rightarrow> jsnum list \<Rightarrow> jsnum list \<Rightarrow> jsnum list \<Rightarrow> nat \<Rightarrow> jsnum" where
  "combine weights arimaForecasts etsForecasts thetaForecasts i =
     Math_round
       ((js_nth arimaForecasts (int i) * Num (arima weights)
           + js_nth etsForecasts (int i) * Num (ets weights)
           + js_nth thetaForecasts (int i) * Num (theta weights))
          / (Num (arima weights) + Num (ets weights) + Num (theta weights)))"

definition generateSingleForecast :: "real list \<Rightarrow> nat \<Rightarrow> jsnum list" where
  "generateSingleForecast quantities periods =
     (let arimaForecasts = generateARIMAForecasts quantities periods;
          etsForecasts = generateETSForecasts quantities periods;
          thetaForecasts = generateThetaForecasts quantities periods;
          weights = calculateModelWeights quantities 0
      in map (\<lambda>i. let forecast = combine weights arimaForecasts etsForecasts thetaForecasts i
                   in Math_max (Num 0) forecast)
           [0..<periods])"

definition generateValidationForecasts :: "series_point list \<Rightarrow> nat \<Rightarrow> jsnum list" where
  "generateValidationForecasts trainingData validationPeriods =
     (let quantities = map sp_soldQuantity trainingData
      in map (\<lambda>i. let availableData =
                         js_slice quantities 0
                           (int (length quantities) - int validationPeriods + int i - 1)
                   in js_nth (generateSingleForecast availableData 1) 0)
           [1..<validationPeriods + 1])"

record future_point =
  fu_soldQuantity :: jsnum
  fu_revenue :: jsnum

record model_run =
  run_future :: "future_point list"
  run_validation :: "jsnum list"

definition runMultipleModels :: "series_point list \<Rightarrow> nat \<Rightarrow> model_run" where
  "runMultipleModels trainingData forecastPeriods =
     (let quantities = map sp_soldQuantity trainingData;
          revenues = map sp_revenue trainingData;
          arimaForecasts = generateARIMAForecasts quantities forecastPeriods;
          etsForecasts = generateETSForecasts quantities forecastPeriods;
          thetaForecasts = generateThetaForecasts quantities forecastPeriods;
          combinedForecasts =
            map (\<lambda>i. let weights = calculateModelWeights quantities i;
                           combinedQuantity =
                             combine weights arimaForecasts etsForecasts thetaForecasts i;
                           avgPrice =
                             foldl (\<lambda>sum (rev, idx). sum + Num rev / js_nth (map Num quantities) idx)
                               (Num 0) (indexed revenues)
                               / Num (real (length quantities));
                           forecastRevenue = combinedQuantity * avgPrice
                       in \<lparr>fu_soldQuantity = Math_max (Num 0) combinedQuantity,
                           fu_revenue = forecastRevenue\<rparr>)
              [0..<forecastPeriods];
          validationForecasts =
            generateValidationForecasts trainingData (length trainingData - 1)
      in \<lparr>run_future = combinedForecasts, run_validation = validationForecasts\<rparr>)"

record sfs_accuracy =
  acc_mae :: jsnum
  acc_mape :: jsnum
  acc_rmse :: jsnum
  acc_accuracy :: category
  acc_confidence :: jsnum

text \<open>
  \<open>calculateAccuracy\<close>. In the MAPE the callback of \<open>reduce\<close> runs over the filtered
  array: its index \<open>i\<close> is the position among the positive actuals.
\<close>

definition calculateAccuracy :: "series_point list \<Rightarrow> jsnum list \<Rightarrow> sfs_accuracy" where
  "calculateAccuracy actualData forecastData =
     (if length actualData \<noteq> length forecastData \<or> length actualData = 0
      then \<lparr>acc_mae = Num 0, acc_mape = Num 0, acc_rmse = Num 0, acc_accuracy = Poor,
            acc_confidence = Num 0\<rparr>
      else
        (let actual = map sp_soldQuantity actualData;
             forecast = forecastData;
             mae = foldl (\<lambda>sum (act, i). sum + Math_abs (Num act - js_nth forecast i))
                     (Num 0) (indexed actual)
                     / Num (real (length actual));
             mape = foldl (\<lambda>sum (act, i). sum + Math_abs ((Num act - js_nth forecast i) / Num act))
                      (Num 0) (indexed (filter (\<lambda>act. act > 0) actual))
                      / Num (real (length (filter (\<lambda>act. act > 0) actual)))
                      * Num 100;
             rmse = Math_sqrt
                      (foldl (\<lambda>sum (act, i). sum + Math_pow2 (Num act - js_nth forecast i))
                         (Num 0) (indexed actual)
                         / Num (real (length actual)));
             accuracy = (if mape \<le> Num 10 then Good else if mape \<le> Num 25 then Medium else Poor);
             confidence =
               Math_min (Num (real (length actual) / 6)) (Num 1)
                 * (if mape \<le> Num 10 then Num 1 else if mape \<le> Num 25 then Num 0.8 else Num 0.6)
         in \<lparr>acc_mae = mae, acc_mape = mape, acc_rmse = rmse, acc_accuracy = accuracy,
             acc_confidence = confidence\<rparr>))"

record sfs_result =
  fr_success :: bool
  fr_error :: "string option"
  fr_forecasts :: "future_point list"
  fr_accuracy :: "sfs_accuracy option"
  fr_trainingMonths :: "nat option"
  fr_validationMonths :: "nat option"
  fr_totalMonths :: "nat option"

definition sfs_failure :: "string \<Rightarrow> sfs_result" where
  "sfs_failure message =
     \<lparr>fr_success = False, fr_error = Some message, fr_forecasts = [], fr_accuracy = None,
      fr_trainingMonths = None, fr_validationMonths = None, fr_totalMonths = None\<rparr>"

text \<open>
  \<open>generateForecasts\<close>. A \<open>null\<close> or empty SKU selects all observations. Nothing in the
  body throws on observations of this type, so the \<open>catch\<close> branch is not reached.
\<close>

definition generateForecasts :: "observation list \<Rightarrow> string option \<Rightarrow> nat \<Rightarrow> sfs_result" where
  "generateForecasts historicalData sku forecastPeriods =
     (let filteredData = filterBySku historicalData sku
      in if length filteredData < 8
         then sfs_failure ''Insufficient data for forecasting (need at least 8 months)''
         else
           (let monthlyData = groupByMonth filteredData;
                timeSeries = prepareTimeSeries monthlyData;
                k = splitIndex (length timeSeries);
                trainingData = take k timeSeries;
                validationData = drop k timeSeries
            in if length trainingData < 4 \<or> length validationData < 2
               then sfs_failure ''Insufficient data split for validation''
               else
                 (let forecasts = runMultipleModels trainingData forecastPeriods;
                      accuracy = calculateAccuracy validationData (run_validation forecasts)
                  in \<lparr>fr_success = True, fr_error = None, fr_forecasts = run_future forecasts,
                      fr_accuracy = Some accuracy,
                      fr_trainingMonths = Some (length trainingData),
                      fr_validationMonths = Some (length validationData),
                      fr_totalMonths = Some (length timeSeries)\<rparr>)))"

section \<open>ForecastAccuracyService: the local ensemble\<close>

text \<open>
  A monthly bucket of the local ensemble: the first day of its month (its year and
  month), the quantity sold and the average price.
\<close>

record month_bucket =
  mb_date :: monthKey
  mb_soldQuantity :: real
  mb_avgPrice :: real

definition getMonth :: "monthKey \<Rightarrow> nat" where
  "getMonth d = snd d mod 12"

definition addMonths :: "monthKey \<Rightarrow> nat \<Rightarrow> monthKey" where
  "addMonths d i = (fst d + (snd d mod 12 + i) div 12, (snd d mod 12 + i) mod 12)"

definition FAS_calculateSeasonalFactors :: "month_bucket list \<Rightarrow> (nat \<times> jsnum) list" where
  "FAS_calculateSeasonalFactors trainingData =
     (let monthlyAverages =
            foldl (\<lambda>slots item.
                     slots[getMonth (mb_date item) :=
                             (fst (slots ! getMonth (mb_date item)) + mb_soldQuantity item,
                              snd (slots ! getMonth (mb_date item)) + 1)])
              (replicate 12 (0, 0 :: nat)) trainingData;
          monthlyMeans =
            map (\<lambda>(sum, count). if count > 0 then sum / real count else 0) monthlyAverages;
          overallMean =
            Num (real_sum monthlyMeans)
              / Num (real (length (filter (\<lambda>mean. mean > 0) monthlyMeans)))
      in map (\<lambda>(mean, month). (month, Num mean / overallMean))
           (filter (\<lambda>(mean, month). mean > 0) (zip monthlyMeans [0..<12])))"

text \<open>The date of the last training bucket; reading it in an empty array throws.\<close>

definition last_date :: "month_bucket list \<Rightarrow> error + monthKey" where
  "last_date trainingData =
     (if trainingData = []
      then Inl (Error ''TypeError: Cannot read properties of undefined'')
      else Inr (mb_date (last trainingData)))"

definition generateLinearTrendForecasts :: "month_bucket list \<Rightarrow> nat \<Rightarrow> error + jsnum list" where
  "generateLinearTrendForecasts trainingData forecastPeriods =
     (let quantities = map mb_soldQuantity trainingData;
          n = length quantities;
          xValues = map (\<lambda>i. Num (real i)) [0..<n];
          yValues = map Num quantities;
          sumX = reduce_sum xValues;
          sumY = reduce_sum yValues;
          sumXY = foldl (\<lambda>sum (x, i). sum + x * js_nth yValues i) (Num 0) (indexed xValues);
          sumXX = foldl (\<lambda>sum x. sum + x * x) (Num 0) xValues;
          slope = (Num (real n) * sumXY - sumX * sumY) / (Num (real n) * sumXX - sumX * sumX);
          intercept = (sumY - slope * sumX) / Num (real n);
          seasonalFactors = FAS_calculateSeasonalFactors trainingData
      in if forecastPeriods = 0 then Inr []
         else
           (case last_date trainingData of
              Inl e \<Rightarrow> Inl e
            | Inr lastDate \<Rightarrow>
                Inr (map (\<lambda>i. let trendValue = intercept + slope * Num (real (n + i - 1));
                                  month = getMonth (addMonths lastDate i);
                                  seasonalFactor = factor_or_1 seasonalFactors month
                              in Math_max (Num 0) (Math_round (trendValue * seasonalFactor)))
                       [1..<forecastPeriods + 1])))"

definition generateMovingAverageForecasts :: "month_bucket list \<Rightarrow> nat \<Rightarrow> jsnum list" where
  "generateMovingAverageForecasts trainingData forecastPeriods =
     (let quantities = map mb_soldQuantity trainingData;
          windowSize = int (min 6 (length quantities div 2));
          movingAverages =
            map (\<lambda>i. let window = js_slice quantities (i - windowSize + 1) (i + 1)
                      in Num (real_sum window) / Num (real (length window)))
              [windowSize - 1..int (length quantities) - 1];
          trend =
            (if length movingAverages > 1
             then (js_nth movingAverages (int (length movingAverages) - 1)
                     - js_nth movingAverages 0)
                    / Num (real (length movingAverages) - 1)
             else Num 0);
          lastMA = js_nth movingAverages (int (length movingAverages) - 1)
      in map (\<lambda>i. Math_max (Num 0) (Math_round (lastMA + trend * Num (real i))))
           [1..<forecastPeriods + 1])"

definition generateExponentialSmoothingForecasts :: "month_bucket list \<Rightarrow> nat \<Rightarrow> jsnum list" where
  "generateExponentialSmoothingForecasts trainingData forecastPeriods =
     (let quantities = map (\<lambda>item. Num (mb_soldQuantity item)) trainingData;
          alpha = Num 0.3;
          smoothed0 = js_nth quantities 0;
          smoothedValues =
            snd (foldl (\<lambda>(smoothed, smoothedValues) i.
                          let smoothed' = alpha * js_nth quantities (int i)
                                            + (Num 1 - alpha) * smoothed
                          in (smoothed', smoothedValues @ [smoothed']))
                   (smoothed0, [smoothed0]) [1..<length quantities]);
          trend =
            (if length smoothedValues > 1
             then (js_nth smoothedValues (int (length smoothedValues) - 1)
                     - js_nth smoothedValues 0)
                    / Num (real (length smoothedValues) - 1)
             else Num 0);
          lastSmoothed = js_nth smoothedValues (int (length smoothedValues) - 1)
      in map (\<lambda>i. Math_max (Num 0) (Math_round (lastSmoothed + trend * Num (real i))))
           [1..<forecastPeriods + 1])"

definition FAS_calculateVolatility :: "real list \<Rightarrow> jsnum" where
  "FAS_calculateVolatility quantities =
     (let mean = reduce_sum (map Num quantities) / Num (real (length quantities));
          variance = reduce_sum (map (\<lambda>qty. Math_pow2 (Num qty - mean)) quantities)
                       / Num (real (length quantities));
          stdDev = Math_sqrt variance
      in if Num 0 < mean then stdDev / mean else Num 0)"

record forecast_weights =
  linear :: real
  movingAvg :: real
  expSmoothing :: real

text \<open>\<open>calculateForecastWeights\<close>; its second argument, the forecast index, is not read.\<close>

definition calculateForecastWeights :: "month_bucket list \<Rightarrow> nat \<Rightarrow> forecast_weights" where
  "calculateForecastWeights trainingData forecastIndex =
     (let baseWeights = \<lparr>linear = 0.4, movingAvg = 0.3, expSmoothing = 0.3\<rparr>;
          quantities = map mb_soldQuantity trainingData;
          volatility = FAS_calculateVolatility quantities
      in if Num 0.5 < volatility then \<lparr>linear = 0.2, movingAvg = 0.4, expSmoothing = 0.4\<rparr>
         else if volatility < Num 0.2 then \<lparr>linear = 0.6, movingAvg = 0.2, expSmoothing = 0.2\<rparr>
         else baseWeights)"

record robust_point =
  rp_month :: monthKey
  rp_date :: monthKey
  rp_soldQuantity :: jsnum
  rp_revenue :: jsnum

text \<open>
  \<open>generateRobustForecasts\<close>. Below four training buckets it returns the empty array
  before any model runs.
\<close>

definition generateRobustForecasts :: "month_bucket list \<Rightarrow> nat \<Rightarrow> error + robust_point list" where
  "generateRobustForecasts trainingData forecastPeriods =
     (if length trainingData < 4 then Inr []
      else
        (case generateLinearTrendForecasts trainingData forecastPeriods of
           Inl e \<Rightarrow> Inl e
         | Inr linearForecasts \<Rightarrow>
             (let movingAvgForecasts = generateMovingAverageForecasts trainingData forecastPeriods;
                  expSmoothingForecasts =
                    generateExponentialSmoothingForecasts trainingData forecastPeriods
              in Inr (map (\<lambda>i. let weights = calculateForecastWeights trainingData i;
                                    combinedQuantity =
                                      Math_round
                                        ((js_nth linearForecasts (int i) * Num (linear weights)
                                            + js_nth movingAvgForecasts (int i)
                                                * Num (movingAvg weights)
                                            + js_nth expSmoothingForecasts (int i)
                                                * Num (expSmoothing weights))
                                           / (Num (linear weights) + Num (movingAvg weights)
                                                + Num (expSmoothing weights)));
                                    avgPrice =
                                      Num (real_sum (map mb_avgPrice trainingData))
                                        / Num (real (length trainingData));
                                    forecastRevenue = combinedQuantity * avgPrice
                                in \<lparr>rp_month = addMonths (mb_date (last trainingData)) (i + 1),
                                    rp_date = addMonths (mb_date (last trainingData)) (i + 1),
                                    rp_soldQuantity = Math_max (Num 0) combinedQuantity,
                                    rp_revenue = forecastRevenue\<rparr>)
                        [0..<forecastPeriods]))))"

section \<open>PriceSalesAnalysisService: correlation of price and sales\<close>

record psa_bucket =
  pb_soldQuantity :: real
  pb_revenue :: real
  pb_totalCost :: real
  pb_pricePoints :: "real list"
  pb_count :: nat

record data_point =
  dp_month :: monthKey
  dp_soldQuantity :: real
  dp_revenue :: real
  dp_avgPrice :: real
  dp_profitMargin :: real
  dp_priceChange :: real
  dp_salesChange :: real

text \<open>
  The grouping loop of \<open>correlatePriceWithSales\<close>, each \<open>+=\<close> and the product
  \<open>item.soldQuantity * item.cost\<close> rounded.
\<close>

definition groupSales :: "observation list \<Rightarrow> (monthKey \<times> psa_bucket) list" where
  "groupSales filteredSales =
     foldl (\<lambda>monthlyData item.
              upsert (format_yyyy_MM (obs_date item))
                \<lparr>pb_soldQuantity = 0, pb_revenue = 0, pb_totalCost = 0, pb_pricePoints = [],
                 pb_count = 0\<rparr>
                (\<lambda>b. \<lparr>pb_soldQuantity = fl (pb_soldQuantity b + obs_soldQuantity item),
                      pb_revenue = fl (pb_revenue b + obs_revenue item),
                      pb_totalCost =
                        fl (pb_totalCost b + fl (obs_soldQuantity item * obs_cost item)),
                      pb_pricePoints = pb_pricePoints b @ [obs_price item],
                      pb_count = pb_count b + 1\<rparr>)
                monthlyData)
       [] filteredSales"

text \<open>
  The data points before the month-over-month changes: the average price and the
  profit margin of each month, sorted by month. Every bucket holds at least one price,
  so the mean divides by a positive count. The average price is the rounded quotient
  of the rounded sum of the prices, taken from left to right, by their count.
\<close>

definition monthlyDataPoints :: "observation list \<Rightarrow> data_point list" where
  "monthlyDataPoints filteredSales =
     sort_key dp_month
       (map (\<lambda>(month, data).
               \<lparr>dp_month = month,
                dp_soldQuantity = pb_soldQuantity data,
                dp_revenue = pb_revenue data,
                dp_avgPrice =
                  fl (fl_sum (pb_pricePoints data) / real (length (pb_pricePoints data))),
                dp_profitMargin =
                  (if pb_revenue data > 0
                   then fl (fl (pb_revenue data - pb_totalCost data) / pb_revenue data)
                   else 0),
                dp_priceChange = 0,
                dp_salesChange = 0\<rparr>)
          (groupSales filteredSales))"

text \<open>The loop over \<open>i \<ge> 1\<close> that sets the changes of each point from the point before.\<close>

fun monthOverMonth :: "data_point \<Rightarrow> data_point list \<Rightarrow> data_point list" where
  "monthOverMonth previous [] = []"
| "monthOverMonth previous (current # rest) =
     (let current' =
            current\<lparr>dp_priceChange :=
                      (if dp_avgPrice previous > 0
                       then fl (fl (dp_avgPrice current - dp_avgPrice previous)
                                  / dp_avgPrice previous)
                       else 0),
                    dp_salesChange :=
                      (if dp_soldQuantity previous > 0
                       then fl (fl (dp_soldQuantity current - dp_soldQuantity previous)
                                  / dp_soldQuantity previous)
                       else 0)\<rparr>
      in current' # monthOverMonth current' rest)"

definition withChanges :: "data_point list \<Rightarrow> data_point list" where
  "withChanges dataPoints =
     (case dataPoints of [] \<Rightarrow> [] | first # rest \<Rightarrow> first # monthOverMonth first rest)"

text \<open>
  \<open>calculatePearsonCorrelation\<close>, every sum, product, difference, square root and
  quotient rounded. \<open>Math.sqrt\<close> of a negative number is \<open>NaN\<close>, which is not \<open>=== 0\<close>.
\<close>

definition calculatePearsonCorrelation :: "data_point list \<Rightarrow> jsnum" where
  "calculatePearsonCorrelation dataPoints =
     (let n = real (length dataPoints)
      in if length dataPoints < 2 then Num 0
         else
           (let x = map dp_priceChange dataPoints;
                y = map dp_salesChange dataPoints;
                sumX = fl_sum x;
                sumY = fl_sum y;
                sumXY = foldl (\<lambda>sum (xi, i). fl (sum + fl (xi * y ! i))) 0
                          (zip x [0..<length x]);
                sumX2 = foldl (\<lambda>sum xi. fl (sum + fl (xi * xi))) 0 x;
                sumY2 = foldl (\<lambda>sum yi. fl (sum + fl (yi * yi))) 0 y;
                numerator = fl (fl (n * sumXY) - fl (sumX * sumY));
                denominator =
                  fl_num (Math_sqrt (Num (fl (fl (fl (n * sumX2) - fl (sumX * sumX))
                                                * fl (fl (n * sumY2) - fl (sumY * sumY))))))
            in if denominator = Num 0 then Num 0
               else fl_num (Num numerator / denominator)))"

definition calculatePriceElasticity :: "data_point list \<Rightarrow> jsnum" where
  "calculatePriceElasticity dataPoints =
     (if length dataPoints < 2 then Num 0
      else
        (let elasticities =
               map (\<lambda>d. fl (dp_salesChange d / dp_priceChange d))
                 (filter (\<lambda>d. dp_priceChange d \<noteq> 0) dataPoints)
         in if length elasticities > 0
            then Num (fl (fl_sum elasticities / real (length elasticities)))
            else Num 0))"

definition PSA_calculateConfidence :: "nat \<Rightarrow> jsnum \<Rightarrow> jsnum" where
  "PSA_calculateConfidence sampleSize correlation =
     (if sampleSize < 3 then Num 0
      else
        (let baseConfidence = Math_min (Num (fl (real sampleSize / 12))) (Num 1);
             correlationStrength = Math_abs correlation
         in fl_num (baseConfidence * fl_num (Num 0.5 + fl_num (correlationStrength * Num 0.5)))))"

text \<open>A count written in decimal, as the template string writes \<open>${dataPoints}\<close>.\<close>

fun show_nat :: "nat \<Rightarrow> string" where
  "show_nat n =
     (if n < 10 then [char_of (48 + n)] else show_nat (n div 10) @ [char_of (48 + n mod 10)])"

text \<open>
  \<open>generateAnalysis\<close>; \<open>Number.prototype.toFixed\<close> is a parameter. The thresholds are
  the doubles of the literals.
\<close>

definition generateAnalysis :: "(jsnum \<Rightarrow> nat \<Rightarrow> string) \<Rightarrow> jsnum \<Rightarrow> jsnum \<Rightarrow> nat \<Rightarrow> string" where
  "generateAnalysis toFixed correlation confidence dataPoints =
     (let absCorrelation = Math_abs correlation;
          direction =
            (if Num 0 < correlation then ''positive''
             else if correlation < Num 0 then ''negative'' else ''no'');
          strength =
            (if Num (fl 0.7) \<le> absCorrelation then ''strong''
             else if Num (fl 0.4) \<le> absCorrelation then ''moderate''
             else if Num (fl 0.2) \<le> absCorrelation then ''weak'' else ''very weak'');
          confidenceLevel =
            (if Num (fl 0.8) \<le> confidence then ''high''
             else if Num (fl 0.6) \<le> confidence then ''moderate'' else ''low'');
          interpretation =
            (if correlation < Num (- fl 0.3)
             then ''This suggests price increases lead to sales decreases (elastic demand).''
             else if Num (fl 0.3) < correlation
             then ''This suggests price increases lead to sales increases (inelastic demand).''
             else ''This suggests price changes have minimal impact on sales volume.'')
      in ''Analysis shows a '' @ strength @ '' '' @ direction @ '' correlation (''
           @ toFixed correlation 3
           @ '') between price changes and sales performance with '' @ confidenceLevel
           @ '' confidence based on '' @ show_nat dataPoints @ '' data points. ''
           @ interpretation)"

record correlation_result =
  cr_correlation :: jsnum
  cr_confidence :: jsnum
  cr_dataPoints :: "data_point list"
  cr_analysis :: string
  cr_priceElasticity :: "jsnum option"

definition correlatePriceWithSales ::
  "(jsnum \<Rightarrow> nat \<Rightarrow> string) \<Rightarrow> observation list \<Rightarrow> string option \<Rightarrow> correlation_result" where
  "correlatePriceWithSales toFixed salesData sku =
     (if salesData = []
      then \<lparr>cr_correlation = Num 0, cr_confidence = Num 0, cr_dataPoints = [],
            cr_analysis = ''Insufficient data for correlation analysis'',
            cr_priceElasticity = None\<rparr>
      else
        (let filteredSales = filterBySku salesData sku
         in if filteredSales = []
            then \<lparr>cr_correlation = Num 0, cr_confidence = Num 0, cr_dataPoints = [],
                  cr_analysis =
                    ''No data available for ''
                      @ (case sku of None \<Rightarrow> ''selected products''
                         | Some s \<Rightarrow> if s = [] then ''selected products'' else s),
                  cr_priceElasticity = None\<rparr>
            else
              (let dataPoints = withChanges (monthlyDataPoints filteredSales);
                   correlationData = tl dataPoints
               in if length correlationData < 2
                  then \<lparr>cr_correlation = Num 0, cr_confidence = Num 0,
                        cr_dataPoints = correlationData,
                        cr_analysis = ''Insufficient data points for correlation analysis'',
                        cr_priceElasticity = None\<rparr>
                  else
                    (let correlation = calculatePearsonCorrelation correlationData;
                         confidence =
                           PSA_calculateConfidence (length correlationData) correlation
                     in \<lparr>cr_correlation = correlation, cr_confidence = confidence,
                         cr_dataPoints = correlationData,
                         cr_analysis =
                           generateAnalysis toFixed correlation confidence
                             (length correlationData),
                         cr_priceElasticity =
                           Some (calculatePriceElasticity correlationData)\<rparr>))))"

text \<open>Three sales, two of them in January 2024, to run the aggregation on.\<close>

definition winter_sales :: "observation list" where
  "winter_sales =
     [\<lparr>obs_date = \<lparr>d_year = 2024, d_month = 0, d_day = 5\<rparr>, obs_sku = ''A'',
       obs_soldQuantity = 3, obs_revenue = 30, obs_soldRevenue = None,
       obs_price = 10, obs_cost = 4\<rparr>,
      \<lparr>obs_date = \<lparr>d_year = 2024, d_month = 1, d_day = 2\<rparr>, obs_sku = ''A'',
       obs_soldQuantity = 1, obs_revenue = 20, obs_soldRevenue = None,
       obs_price = 20, obs_cost = 4\<rparr>,
      \<lparr>obs_date = \<lparr>d_year = 2024, d_month = 0, d_day = 9\<rparr>, obs_sku = ''A'',
       obs_soldQuantity = 2, obs_revenue = 24, obs_soldRevenue = None,
       obs_price = 12, obs_cost = 4\<rparr>]"

text \<open>
  Three sales of one unit in January 2024, at the prices 0.1, 5.01 and 19.99.
\<close>

definition cent_sales :: "observation list" where
  "cent_sales =
     map (\<lambda>p. \<lparr>obs_date = \<lparr>d_year = 2024, d_month = 0, d_day = 1\<rparr>, obs_sku = ''A'',
                obs_soldQuantity = 1, obs_revenue = fl (1 * fl p), obs_soldRevenue = None,
                obs_price = fl p, obs_cost = 0\<rparr>)
       [0.1, 5.01, 19.99]"

text \<open>
  Sales of one product at the constant price 0.1 in the first four months of 2024:
  4 units in one sale in January, three sales of 2 units in February, 3 units in one
  sale in March and in April.
\<close>

definition constant_price_sales :: "observation list" where
  "constant_price_sales =
     map (\<lambda>(m, q). \<lparr>obs_date = \<lparr>d_year = 2024, d_month = m, d_day = 1\<rparr>, obs_sku = ''A'',
                     obs_soldQuantity = q, obs_revenue = fl (q * fl 0.1),
                     obs_soldRevenue = None, obs_price = fl 0.1, obs_cost = 0\<rparr>)
       [(0, 4), (1, 2), (1, 2), (1, 2), (2, 3), (3, 3)]"

text \<open>Four monthly buckets with the same quantity, to compare the two weight tables on.\<close>

definition flat_months :: "month_bucket list" where
  "flat_months =
     map (\<lambda>m. \<lparr>mb_date = (2024, m), mb_soldQuantity = 10, mb_avgPrice = 5\<rparr>) [0, 1, 2, 3]"

section \<open>The caller's array is reordered\<close>

text \<open>
  C10. The claim: preparing the time series leaves the caller's array of observations
  as it was. \<open>prepareTimeSeriesData\<close> sorts its argument in place: called on an array
  holding a later record before an earlier one, it leaves the caller's array with the
  earlier record first.
\<close>

theorem prepareTimeSeriesData_reorders_input:
  "later_first 0 = [\<lparr>sale_date = 2, sale_sales = Some 20, sale_sku = ''A''\<rparr>,
                    \<lparr>sale_date = 1, sale_sales = Some 10, sale_sku = ''A''\<rparr>]
   \<and> snd (prepareTimeSeriesData later_first 0) 0
       = [\<lparr>sale_date = 1, sale_sales = Some 10, sale_sku = ''A''\<rparr>,
          \<lparr>sale_date = 2, sale_sales = Some 20, sale_sku = ''A''\<rparr>]"
  by (simp add: prepareTimeSeriesData_def later_first_def)

section \<open>The model cache decides the forecast\<close>

lemma sort_key_twice: "sort_key f (sort_key f xs) = sort_key f xs"
  by (simp add: sort_key_id_if_sorted)

lemma models_get_heap_update: "models_get (st\<lparr>heap_of := h\<rparr>) pid = models_get st pid"
  by (simp add: models_get_def split: option.splits)

lemma models_get_set:
  "models_get (models_set st pid m) pid
     = (if pid = None \<or> pid = Some [] then models_get st pid else Some m)"
  by (auto simp add: models_get_def models_set_def split: option.splits)

lemma heap_of_models_set: "heap_of (models_set st pid m) = heap_of st"
  by (simp add: models_set_def split: option.splits)

lemma forecast_points_sales:
  assumes "length ds = n"
  shows "map (fp_sales \<circ>
              (\<lambda>(date, index).
                 \<lparr>fp_date = date,
                  fp_sales = Math_max (Num 0) (js_nth forecast index),
                  fp_upperBound = Math_max (Num 0) (js_nth forecast index + ci),
                  fp_lowerBound = Math_max (Num 0) (js_nth forecast index - ci)\<rparr>))
           (zip ds (map int [0..<n]))
         = map (\<lambda>i. Math_max (Num 0) (js_nth forecast (int i))) [0..<n]"
proof -
  have "map (fp_sales \<circ>
              (\<lambda>(date, index).
                 \<lparr>fp_date = date,
                  fp_sales = Math_max (Num 0) (js_nth forecast index),
                  fp_upperBound = Math_max (Num 0) (js_nth forecast index + ci),
                  fp_lowerBound = Math_max (Num 0) (js_nth forecast index - ci)\<rparr>))
           (zip ds is)
          = map (\<lambda>index. Math_max (Num 0) (js_nth forecast index)) is"
    if "length ds = length is" for "is" :: "int list"
    using that by (induction ds "is" rule: list_induct2) simp_all
  from this [of "map int [0..<n]"] assms show ?thesis
    by (simp add: o_def)
qed

text \<open>
  The forecast quantities of a call on three or more records: the clamped predictions of
  the model cached for the product id when there is one, and otherwise of a model
  trained on the current values.
\<close>

lemma forecast_sales_by_model:
  assumes "\<not> length (heap_of st salesData) < 3"
  shows "forecast_sales (fst (ARIMA_generateForecast lib fd st salesData periods productId)) =
     (case (case models_get st productId of
              Some m \<Rightarrow> Inr m
            | None \<Rightarrow>
                lib_train lib (map (\<lambda>item. parseFloat_or0 (sale_sales item))
                                 (sort_key sale_date (heap_of st salesData)))) of
        Inl e \<Rightarrow> None
      | Inr m \<Rightarrow>
          (case lib_predict lib m periods of
             Inl e \<Rightarrow> None
           | Inr forecast \<Rightarrow>
               Some (map (\<lambda>i. Math_max (Num 0) (js_nth forecast (int i))) [0..<periods])))"
proof (cases "models_get st productId")
  case (Some m)
  with assms show ?thesis
    by (simp add: ARIMA_generateForecast_def prepareTimeSeriesData_def Let_def
        models_get_heap_update forecast_sales_def forecast_points_sales
        del: upt_Suc split: sum.splits)
next
  case None
  with assms show ?thesis
    by (simp add: ARIMA_generateForecast_def prepareTimeSeriesData_def Let_def
        models_get_heap_update forecast_sales_def forecast_points_sales
        del: upt_Suc split: sum.splits)
qed

text \<open>The service after a call on three or more records: the array sorted, a trained model cached.\<close>

lemma service_after_forecast:
  assumes "\<not> length (heap_of st salesData) < 3"
  shows "snd (ARIMA_generateForecast lib fd st salesData periods productId) =
     (case models_get st productId of
        Some m \<Rightarrow>
          st\<lparr>heap_of := (heap_of st)(salesData := sort_key sale_date (heap_of st salesData))\<rparr>
      | None \<Rightarrow>
          (case lib_train lib (map (\<lambda>item. parseFloat_or0 (sale_sales item))
                                 (sort_key sale_date (heap_of st salesData))) of
             Inl e \<Rightarrow>
               st\<lparr>heap_of := (heap_of st)(salesData := sort_key sale_date (heap_of st salesData))\<rparr>
           | Inr m \<Rightarrow>
               models_set
                 (st\<lparr>heap_of := (heap_of st)(salesData := sort_key sale_date (heap_of st salesData))\<rparr>)
                 productId m))"
proof (cases "models_get st productId")
  case (Some m)
  with assms show ?thesis
    by (simp add: ARIMA_generateForecast_def prepareTimeSeriesData_def Let_def
        models_get_heap_update split: sum.splits)
next
  case None
  show ?thesis
  proof (cases "lib_train lib (map (\<lambda>item. parseFloat_or0 (sale_sales item))
                                 (sort_key sale_date (heap_of st salesData)))")
    case (Inl e)
    with assms None show ?thesis
      by (simp add: ARIMA_generateForecast_def prepareTimeSeriesData_def Let_def
          models_get_heap_update)
  next
    case (Inr m)
    with assms None show ?thesis
      by (simp add: ARIMA_generateForecast_def prepareTimeSeriesData_def Let_def
          models_get_heap_update split: sum.splits)
  qed
qed

text \<open>The cache entry of the product id after a call on three or more records.\<close>

lemma models_after_forecast:
  assumes "\<not> length (heap_of st salesData) < 3"
  shows "models_get (snd (ARIMA_generateForecast lib fd st salesData periods productId)) productId =
     (case models_get st productId of
        Some m \<Rightarrow> Some m
      | None \<Rightarrow>
          (case lib_train lib (map (\<lambda>item. parseFloat_or0 (sale_sales item))
                                 (sort_key sale_date (heap_of st salesData))) of
             Inl e \<Rightarrow> None
           | Inr m \<Rightarrow> if productId = None \<or> productId = Some [] then None else Some m))"
  unfolding service_after_forecast [OF assms]
  by (auto simp add: models_get_heap_update models_get_set split: option.splits sum.splits)

lemma models_get_clearCache: "models_get (clearCache st) productId = None"
  by (simp add: models_get_def clearCache_def split: option.splits)

lemma heap_of_clearCache: "heap_of (clearCache st) = heap_of st"
  by (simp add: clearCache_def)

lemma generateForecast_again:
  "fst (ARIMA_generateForecast lib fd
          (snd (ARIMA_generateForecast lib fd st r p pid)) r p pid)
     = fst (ARIMA_generateForecast lib fd st r p pid)"
proof (cases "length (heap_of st r) < 3")
  case True
  then show ?thesis
    by (simp add: ARIMA_generateForecast_def prepareTimeSeriesData_def Let_def sort_key_twice)
next
  case long: False
  show ?thesis
  proof (cases "models_get st pid")
    case (Some m)
    with long show ?thesis
      by (simp add: ARIMA_generateForecast_def prepareTimeSeriesData_def Let_def sort_key_twice
          models_get_heap_update split: sum.splits)
  next
    case None
    show ?thesis
    proof (cases "lib_train lib (map (\<lambda>item. parseFloat_or0 (sale_sales item))
                                   (sort_key sale_date (heap_of st r)))")
      case (Inl e)
      with long None show ?thesis
        by (simp add: ARIMA_generateForecast_def prepareTimeSeriesData_def Let_def
            sort_key_twice models_get_heap_update)
    next
      case (Inr m)
      with long None show ?thesis
        by (simp add: ARIMA_generateForecast_def prepareTimeSeriesData_def Let_def
            sort_key_twice models_get_heap_update models_get_set heap_of_models_set
            split: sum.splits)
    qed
  qed
qed

lemma generateForecast_same_entry:
  assumes "heap_of st salesData = heap_of st' salesData"
    and "models_get st productId = models_get st' productId"
  shows "fst (ARIMA_generateForecast lib fd st salesData periods productId)
           = fst (ARIMA_generateForecast lib fd st' salesData periods productId)"
  using assms
  by (auto simp add: ARIMA_generateForecast_def prepareTimeSeriesData_def Let_def
      models_get_def split: prod.splits option.splits sum.splits)

lemma remote_answer_returned:
  assumes "fetch (salesData, periods, productId) = Inr answer" and "py_success answer"
  shows "Python_generateForecast fetch salesData periods productId = Inr answer"
  using assms by (simp add: Python_generateForecast_def)

text \<open>
  C9, as the claim states it, fails. With the same observations, horizon and product id,
  the local service forecasts \<open>[3]\<close> when it is fresh and \<open>[9]\<close> when it has forecast
  other data for that product before, since the model cached then is used again. And
  the remote venue returns what the remote service answers: for a service that answers
  10 for every period, the forecast of the same observations is \<open>[10]\<close>.
\<close>

theorem cached_model_changes_forecast:
  "forecast_sales (fst (ARIMA_generateForecast last_value_lib no_dates
       \<lparr>heap_of = two_arrays, models = Map.empty\<rparr> 0 1 (Some ''A''))) = Some [Num 3]
   \<and> forecast_sales (fst (ARIMA_generateForecast last_value_lib no_dates
       (snd (ARIMA_generateForecast last_value_lib no_dates
               \<lparr>heap_of = two_arrays, models = Map.empty\<rparr> 1 1 (Some ''A'')))
         0 1 (Some ''A''))) = Some [Num 9]
   \<and> Python_generateForecast remote_tens (two_arrays 0) 1 (Some ''A'')
       = Inr \<lparr>py_success = True, py_error = None,
              py_forecast = Some [\<lparr>pp_date = [], pp_sales = Some 10\<rparr>]\<rparr>"
  by (simp add: ARIMA_generateForecast_def prepareTimeSeriesData_def two_arrays_def
      last_value_lib_def models_get_def models_set_def forecast_sales_def parseFloat_or0_def
      js_nth_def Let_def Python_generateForecast_def remote_tens_def)

text \<open>
  C9, amended. On three or more records the forecast quantities of \<open>generateForecast\<close>
  are the predictions, clamped at 0, of the model cached for the product id when there
  is one, and otherwise of a model trained on the current values, which is then cached
  under a non-empty product id; after \<open>clearCache\<close> no model is cached and the call
  trains again. So the result is a function of the observations, the horizon and the
  cache entry of the product id: two services that hold the same array and the same
  entry return the same result, and a call repeated with the same input returns the
  same result as the first. The remote venue returns the successful answer of the
  remote service as it is.
\<close>

theorem generateForecast_by_cache_entry:
  "(\<not> length (heap_of st salesData) < 3 \<longrightarrow>
      forecast_sales (fst (ARIMA_generateForecast lib fd st salesData periods productId)) =
        (case (case models_get st productId of
                 Some m \<Rightarrow> Inr m
               | None \<Rightarrow>
                   lib_train lib (map (\<lambda>item. parseFloat_or0 (sale_sales item))
                                    (sort_key sale_date (heap_of st salesData)))) of
           Inl e \<Rightarrow> None
         | Inr m \<Rightarrow>
             (case lib_predict lib m periods of
                Inl e \<Rightarrow> None
              | Inr forecast \<Rightarrow>
                  Some (map (\<lambda>i. Math_max (Num 0) (js_nth forecast (int i))) [0..<periods])))
      \<and> models_get (snd (ARIMA_generateForecast lib fd st salesData periods productId)) productId =
        (case models_get st productId of
           Some m \<Rightarrow> Some m
         | None \<Rightarrow>
             (case lib_train lib (map (\<lambda>item. parseFloat_or0 (sale_sales item))
                                    (sort_key sale_date (heap_of st salesData))) of
                Inl e \<Rightarrow> None
              | Inr m \<Rightarrow> if productId = None \<or> productId = Some [] then None else Some m))
      \<and> forecast_sales
          (fst (ARIMA_generateForecast lib fd (clearCache st) salesData periods productId)) =
        (case lib_train lib (map (\<lambda>item. parseFloat_or0 (sale_sales item))
                               (sort_key sale_date (heap_of st salesData))) of
           Inl e \<Rightarrow> None
         | Inr m \<Rightarrow>
             (case lib_predict lib m periods of
                Inl e \<Rightarrow> None
              | Inr forecast \<Rightarrow>
                  Some (map (\<lambda>i. Math_max (Num 0) (js_nth forecast (int i))) [0..<periods]))))
   \<and> models_get (clearCache st) productId = None
   \<and> (heap_of st salesData = heap_of st' salesData
        \<and> models_get st productId = models_get st' productId \<longrightarrow>
        fst (ARIMA_generateForecast lib fd st salesData periods productId)
          = fst (ARIMA_generateForecast lib fd st' salesData periods productId))
   \<and> fst (ARIMA_generateForecast lib fd
            (snd (ARIMA_generateForecast lib fd st salesData periods productId))
            salesData periods productId)
       = fst (ARIMA_generateForecast lib fd st salesData periods productId)
   \<and> (fetch (sales, periods, productId) = Inr answer \<and> py_success answer \<longrightarrow>
        Python_generateForecast fetch sales periods productId = Inr answer)"
proof -
  have cleared: "forecast_sales
          (fst (ARIMA_generateForecast lib fd (clearCache st) salesData periods productId)) =
        (case lib_train lib (map (\<lambda>item. parseFloat_or0 (sale_sales item))
                               (sort_key sale_date (heap_of st salesData))) of
           Inl e \<Rightarrow> None
         | Inr m \<Rightarrow>
             (case lib_predict lib m periods of
                Inl e \<Rightarrow> None
              | Inr forecast \<Rightarrow>
                  Some (map (\<lambda>i. Math_max (Num 0) (js_nth forecast (int i))) [0..<periods])))"
    if "\<not> length (heap_of st salesData) < 3"
    using forecast_sales_by_model [of "clearCache st" salesData lib fd periods productId] that
    by (simp add: heap_of_clearCache models_get_clearCache)
  show ?thesis
    using forecast_sales_by_model [of st salesData lib fd periods productId]
      models_after_forecast [of st salesData lib fd periods productId]
      cleared models_get_clearCache [of st productId]
      generateForecast_same_entry [of st salesData st' productId lib fd periods]
      generateForecast_again [of lib fd st salesData periods productId]
      remote_answer_returned [of fetch sales periods productId answer]
    by blast
qed

theorem generateForecast_by_cache_entry_witness:
  "\<not> length (heap_of \<lparr>heap_of = two_arrays, models = [''A'' \<mapsto> 9]\<rparr> 0) < 3
   \<and> forecast_sales (fst (ARIMA_generateForecast last_value_lib no_dates
         \<lparr>heap_of = two_arrays, models = [''A'' \<mapsto> 9]\<rparr> 0 1 (Some ''A''))) = Some [Num 9]
   \<and> models_get (snd (ARIMA_generateForecast last_value_lib no_dates
         \<lparr>heap_of = two_arrays, models = [''A'' \<mapsto> 9]\<rparr> 0 1 (Some ''A''))) (Some ''A'') = Some 9
   \<and> forecast_sales (fst (ARIMA_generateForecast last_value_lib no_dates
         (clearCache \<lparr>heap_of = two_arrays, models = [''A'' \<mapsto> 9]\<rparr>) 0 1 (Some ''A'')))
       = Some [Num 3]
   \<and> heap_of \<lparr>heap_of = two_arrays, models = Map.empty\<rparr> 0
       = heap_of \<lparr>heap_of = two_arrays, models = [''B'' \<mapsto> 5]\<rparr> 0
   \<and> models_get \<lparr>heap_of = two_arrays, models = Map.empty\<rparr> (Some ''A'')
       = models_get \<lparr>heap_of = two_arrays, models = [''B'' \<mapsto> 5]\<rparr> (Some ''A'')
   \<and> fst (ARIMA_generateForecast last_value_lib no_dates
            \<lparr>heap_of = two_arrays, models = Map.empty\<rparr> 0 1 (Some ''A''))
       = fst (ARIMA_generateForecast last_value_lib no_dates
            \<lparr>heap_of = two_arrays, models = [''B'' \<mapsto> 5]\<rparr> 0 1 (Some ''A''))
   \<and> remote_tens (two_arrays 0, 1, Some ''A'')
       = Inr \<lparr>py_success = True, py_error = None,
              py_forecast = Some [\<lparr>pp_date = [], pp_sales = Some 10\<rparr>]\<rparr>
   \<and> Python_generateForecast remote_tens (two_arrays 0) 1 (Some ''A'')
       = Inr \<lparr>py_success = True, py_error = None,
              py_forecast = Some [\<lparr>pp_date = [], pp_sales = Some 10\<rparr>]\<rparr>"
  using generateForecast_by_cache_entry
    [of "\<lparr>heap_of = two_arrays, models = [''A'' \<mapsto> 9]\<rparr>" 0
        last_value_lib no_dates 1 "Some ''A''"
        "\<lparr>heap_of = two_arrays, models = [''A'' \<mapsto> 9]\<rparr>"
        remote_tens "two_arrays 0"
        "\<lparr>py_success = True, py_error = None,
          py_forecast = Some [\<lparr>pp_date = [], pp_sales = Some 10\<rparr>]\<rparr>"]
    generateForecast_by_cache_entry
    [of "\<lparr>heap_of = two_arrays, models = Map.empty\<rparr>" 0
        last_value_lib no_dates 1 "Some ''A''"
        "\<lparr>heap_of = two_arrays, models = [''B'' \<mapsto> 5]\<rparr>"
        remote_down "[]"
        "\<lparr>py_success = True, py_error = None, py_forecast = None\<rparr>"]
  by (simp add: models_get_def two_arrays_def last_value_lib_def parseFloat_or0_def js_nth_def
      remote_tens_def)

section \<open>A failing remote call leaves the accuracy calculation as an error\<close>

text \<open>
  C1. The claim: when the remote call fails, the accuracy calculation still returns a
  report, computed locally. The code has no local computation on this path: on every
  non-empty history, the error of the first remote call is what
  \<open>calculateForecastAccuracy\<close> throws.
\<close>

theorem remote_failure_is_thrown:
  assumes "historicalData \<noteq> []"
    and "fetch (historicalData, 12, sku) = Inl e"
  shows "calculateForecastAccuracy fetch toFixed historicalData forecastData sku = Inl e"
  using assms
  by (simp add: calculateForecastAccuracy_def Python_generateEnsembleForecast_def
      Python_generateForecast_def)

theorem remote_failure_is_thrown_witness:
  "five_months \<noteq> []
   \<and> remote_down (five_months, 12, None) = Inl (Error ''Failed to fetch'')
   \<and> calculateForecastAccuracy remote_down toFixed_zero five_months () None
       = Inl (Error ''Failed to fetch'')"
  using remote_failure_is_thrown
    [of five_months remote_down None "Error ''Failed to fetch''" toFixed_zero "()"]
  by (simp add: five_months_def remote_down_def)

section \<open>A short training part is not rejected by the accuracy calculation\<close>

text \<open>The split index, and the lengths for which a part of the split is too short.\<close>

lemma splitIndex_div: "splitIndex n = (7 * n) div 10"
proof -
  have "\<lfloor>real (7 * n) / real 10\<rfloor> = int ((7 * n) div 10)"
    by (rule floor_divide_of_nat_eq)
  then show ?thesis
    by (simp add: splitIndex_def mult.commute)
qed

lemma split_training_small: "splitIndex n < 4 \<longleftrightarrow> n < 6"
  unfolding splitIndex_div by (simp add: div_less_iff_less_mult) arith

lemma split_validation_small: "n - splitIndex n < 2 \<longleftrightarrow> n < 4"
  unfolding splitIndex_div by arith

text \<open>\<open>generateForecasts\<close> of the StatsForecastService tests both parts of the split.\<close>

lemma generateForecasts_rejects_short_split:
  assumes "\<not> length (filterBySku historicalData sku) < 8"
    and "length (take (splitIndex (length (prepareTimeSeries (groupByMonth
                    (filterBySku historicalData sku)))))
                  (prepareTimeSeries (groupByMonth (filterBySku historicalData sku)))) < 4
         \<or> length (drop (splitIndex (length (prepareTimeSeries (groupByMonth
                    (filterBySku historicalData sku)))))
                  (prepareTimeSeries (groupByMonth (filterBySku historicalData sku)))) < 2"
  shows "generateForecasts historicalData sku forecastPeriods
           = sfs_failure ''Insufficient data split for validation''"
  using assms unfolding generateForecasts_def Let_def by (simp only: if_True if_False)

text \<open>
  C3. The claim: a series whose split leaves fewer than 4 training months is rejected
  with a zero report. \<open>calculateForecastAccuracy\<close> tests the validation part only: on
  five months (3 for training, 2 for validation) and a remote service that answers, it
  returns a full report with category \<open>Good\<close>.
\<close>

theorem three_training_months_give_a_report:
  "calculateForecastAccuracy remote_tens toFixed_zero five_months () None =
     Inr \<lparr>ar_mae = Num 0, ar_mape = Num 0, ar_rmse = Num 0, ar_accuracy = Good,
          ar_confidence = Num (17 / 60),
          ar_recommendation = ''Forecast for this product is highly reliable (0.0% error). Safe to use for planning and inventory decisions.'',
          ar_dataPoints = Some 2,
          ar_comparisonData = Some [\<lparr>cmp_actual = 10, cmp_forecast = 10, cmp_date = 4\<rparr>,
                                    \<lparr>cmp_actual = 10, cmp_forecast = 10, cmp_date = 5\<rparr>],
          ar_trainingMonths = Some 3, ar_validationMonths = Some 2, ar_totalMonths = Some 5\<rparr>"
proof -
  have k: "splitIndex (length five_months) = 3"
    by (simp add: five_months_def splitIndex_def)
  have tr: "take 3 five_months
              = map (\<lambda>d. \<lparr>sale_date = d, sale_sales = Some 10, sale_sku = ''A''\<rparr>) [1, 2, 3]"
    by (simp add: five_months_def)
  have va: "drop 3 five_months
              = map (\<lambda>d. \<lparr>sale_date = d, sale_sales = Some 10, sale_sku = ''A''\<rparr>) [4, 5]"
    by (simp add: five_months_def)
  have ne: "five_months \<noteq> []" and len: "length five_months = 5"
    by (simp_all add: five_months_def)
  have up: "[0..<2] = [0, Suc 0]"
    by (simp add: upt_rec)
  show ?thesis
    unfolding calculateForecastAccuracy_def Let_def k tr va
    by (simp add: ne len up Python_generateEnsembleForecast_def Python_generateForecast_def
        remote_tens_def calculateMAE_def calculateMAPE_def calculateRMSE_def real_sum_def
        categorizeAccuracy_def FAS_calculateConfidence_def generateRecommendation_def
        parseFloat_or0_def toFixed_zero_def)
qed

section \<open>Rounding to the nearest double\<close>

text \<open>
  The exponent that \<open>binade\<close> computes is the one of the binade of its argument; a
  number within half a unit in the last place of a double is rounded to it; whole
  numbers of at most 53 bits are doubles, so a sum of such numbers that stays within 53
  bits is exact; and the double of a square root is found from the squares of the two
  midpoints next to it.
\<close>

lemma pow2_pos [simp]: "0 < pow2 k"
  by (simp add: pow2_def)

lemma pow2_nat: "pow2 (int n) = 2 ^ n"
  by (simp add: pow2_def)

lemma pow2_neg: "k \<le> 0 \<Longrightarrow> pow2 k = 1 / 2 ^ nat (- k)"
  by (auto simp add: pow2_def)

lemma pow2_Suc: "pow2 (k + 1) = 2 * pow2 k"
proof (cases "0 \<le> k")
  case True
  then show ?thesis by (simp add: pow2_def nat_add_distrib)
next
  case False
  then have "nat (- k) = Suc (nat (- (k + 1)))" by simp
  with False show ?thesis by (auto simp add: pow2_def)
qed

lemma binade_eqI:
  assumes "pow2 e \<le> \<bar>x\<bar>" and "\<bar>x\<bar> < pow2 (e + 1)"
  shows "binade x = e"
proof (cases "0 \<le> e")
  case True
  define n where "n = nat \<lfloor>\<bar>x\<bar>\<rfloor>"
  have one: "1 \<le> \<bar>x\<bar>"
    using assms(1) True by (simp add: pow2_def) (meson one_le_power one_le_numeral order_trans)
  have "(2::int) ^ nat e \<le> \<lfloor>\<bar>x\<bar>\<rfloor>"
    using assms(1) True by (simp add: pow2_def le_floor_iff)
  then have lo: "2 ^ nat e \<le> n"
    unfolding n_def by (simp add: le_nat_iff)
  have "\<lfloor>\<bar>x\<bar>\<rfloor> < (2::int) ^ nat (e + 1)"
    using assms(2) True by (simp add: pow2_def floor_less_iff)
  then have hi: "n < 2 ^ (nat e + 1)"
    unfolding n_def using True by (simp add: nat_less_iff nat_add_distrib)
  have "floorlog 2 n \<le> nat e + 1"
    using hi by (intro floorlog_leI) simp_all
  moreover have "Suc (nat e) \<le> floorlog 2 n"
    using lo by (intro floorlog_ge_SucI) simp_all
  ultimately have "floorlog 2 n = nat e + 1"
    by simp
  then show ?thesis
    using one True by (simp add: binade_def n_def)
next
  case False
  then have neg: "e + 1 \<le> 0" by simp
  define j where "j = nat (- (e + 1))"
  have e: "e = - int (Suc j)"
    using neg by (simp add: j_def)
  have p1: "pow2 (e + 1) = 1 / 2 ^ j"
    using neg by (simp add: pow2_neg j_def)
  have "nat (int j + 1) = Suc j" by simp
  then have p0: "pow2 e = 1 / 2 ^ Suc j"
    unfolding e by (simp add: pow2_def)
  have pos: "0 < \<bar>x\<bar>"
    using assms(1) pow2_pos [of e] by linarith
  have lt1: "\<bar>x\<bar> < 1"
  proof -
    have "(1::real) / 2 ^ j \<le> 1" by simp
    with assms(2) p1 show ?thesis by linarith
  qed
  define t where "t = 1 / \<bar>x\<bar>"
  have t_lo: "2 ^ j < t"
  proof -
    have "\<bar>x\<bar> < 1 / 2 ^ j"
      using assms(2) p1 by simp
    then have "\<bar>x\<bar> * 2 ^ j < 1"
      by (simp add: pos_less_divide_eq)
    then show ?thesis
      using pos by (simp add: t_def field_simps)
  qed
  have t_hi: "t \<le> 2 ^ Suc j"
  proof -
    have "1 / 2 ^ Suc j \<le> \<bar>x\<bar>"
      using assms(1) p0 by simp
    then have "1 \<le> \<bar>x\<bar> * 2 ^ Suc j"
      by (simp add: pos_divide_le_eq)
    then show ?thesis
      using pos by (simp add: t_def field_simps)
  qed
  define m where "m = nat (\<lceil>t\<rceil> - 1)"
  have c_lo: "(2::int) ^ j < \<lceil>t\<rceil>"
    using t_lo by (simp add: less_ceiling_iff)
  then have lo: "2 ^ j \<le> m"
    unfolding m_def by (simp add: le_nat_iff)
  have "(0::int) < 2 ^ j" by simp
  with c_lo have c_pos: "0 \<le> \<lceil>t\<rceil> - 1" by linarith
  have "\<lceil>t\<rceil> \<le> (2::int) ^ Suc j"
    using t_hi by (simp add: ceiling_le_iff)
  then have hi: "m < 2 ^ Suc j"
    unfolding m_def using c_pos by (simp add: nat_less_iff)
  have "floorlog 2 m \<le> Suc j"
    using hi by (intro floorlog_leI) simp_all
  moreover have "Suc j \<le> floorlog 2 m"
    using lo by (intro floorlog_ge_SucI) simp_all
  ultimately have "floorlog 2 m = Suc j"
    by simp
  then show ?thesis
    using lt1 by (simp add: binade_def m_def t_def e)
qed

lemma roundTiesToEven_nearest:
  assumes "\<bar>r - of_int k\<bar> < 1 / 2"
  shows "roundTiesToEven r = k"
proof (cases "of_int k \<le> r")
  case True
  then have "\<lfloor>r\<rfloor> = k"
    using assms by (intro floor_unique) auto
  then show ?thesis
    using assms True by (simp add: roundTiesToEven_def)
next
  case False
  then have "\<lfloor>r\<rfloor> = k - 1"
    using assms by (intro floor_unique) auto
  then show ?thesis
    using assms False by (simp add: roundTiesToEven_def Let_def)
qed

lemma roundTiesToEven_of_int [simp]: "roundTiesToEven (of_int k) = k"
  by (rule roundTiesToEven_nearest) simp

lemma fl_nearest:
  assumes "pow2 e \<le> \<bar>x\<bar>" and "\<bar>x\<bar> < pow2 (e + 1)" and "- 1022 \<le> e"
    and "\<bar>x / pow2 (e - 52) - of_int k\<bar> < 1 / 2"
  shows "fl x = of_int k * pow2 (e - 52)"
proof -
  have b: "binade x = e"
    using assms(1,2) by (rule binade_eqI)
  have "x \<noteq> 0"
  proof
    assume "x = 0"
    then have "pow2 e \<le> 0" using assms(1) by simp
    then show False using pow2_pos [of e] by linarith
  qed
  then show ?thesis
    using assms(3) by (simp add: fl_def b max_def roundTiesToEven_nearest [OF assms(4)])
qed

lemma pow2_add_nat: "pow2 (k + int n) = 2 ^ n * pow2 k"
proof (induction n)
  case 0
  then show ?case by simp
next
  case (Suc n)
  have "k + int (Suc n) = k + int n + 1"
    by simp
  then have "pow2 (k + int (Suc n)) = pow2 (k + int n + 1)"
    by (rule arg_cong)
  also have "\<dots> = 2 * pow2 (k + int n)"
    by (rule pow2_Suc)
  finally show ?case
    by (simp add: Suc)
qed

lemma binade_le:
  assumes "1 \<le> \<bar>x\<bar>" and "\<bar>x\<bar> < 2 ^ Suc n"
  shows "binade x \<le> int n"
proof -
  have "\<lfloor>\<bar>x\<bar>\<rfloor> < (2::int) ^ Suc n"
    using assms(2) by (simp add: floor_less_iff)
  then have "nat \<lfloor>\<bar>x\<bar>\<rfloor> < 2 ^ Suc n"
    by (simp add: nat_less_iff)
  then have "floorlog 2 (nat \<lfloor>\<bar>x\<bar>\<rfloor>) \<le> Suc n"
    by (intro floorlog_leI) simp_all
  then show ?thesis
    using assms(1) by (simp add: binade_def)
qed

lemma fl_Ints:
  assumes "x \<in> \<int>" and "\<bar>x\<bar> \<le> 2 ^ 53"
  shows "fl x = x"
proof (cases "x = 0")
  case True
  then show ?thesis by (simp add: fl_def)
next
  case False
  obtain n where n: "x = of_int n"
    using assms(1) by (auto elim: Ints_cases)
  have one: "1 \<le> \<bar>x\<bar>"
    using False unfolding n by (simp flip: of_int_abs)
  define e where "e = max (binade x) (- 1022)"
  have "\<exists>k. x / pow2 (e - 52) = of_int k"
  proof (cases "\<bar>x\<bar> < 2 ^ 53")
    case True
    have "binade x \<le> 52"
      using binade_le [OF one, of 52] True by simp
    then have "e - 52 \<le> 0"
      by (simp add: e_def)
    then have "x / pow2 (e - 52) = of_int (n * 2 ^ nat (- (e - 52)))"
      by (simp add: pow2_neg n)
    then show ?thesis ..
  next
    case False
    with assms(2) have ax: "\<bar>x\<bar> = 2 ^ 53" by simp
    have "binade x = 53"
      by (rule binade_eqI) (simp_all add: ax pow2_def)
    then have e: "e - 52 = 1"
      by (simp add: e_def)
    have "\<bar>n\<bar> = 2 ^ 53"
      using ax unfolding n by (simp flip: of_int_abs)
    then have "n = 2 ^ 53 \<or> n = - (2 ^ 53)"
      by linarith
    then have "x / pow2 1 = of_int (n div 2)"
      unfolding n by (auto simp add: pow2_def)
    then show ?thesis
      unfolding e ..
  qed
  then obtain k where k: "x / pow2 (e - 52) = of_int k" ..
  have "of_int k * pow2 (e - 52) = x"
    using k pow2_pos [of "e - 52"] by (simp add: field_simps)
  then show ?thesis
    using False by (simp add: fl_def Let_def k flip: e_def)
qed

lemma fl_sum_exact:
  assumes "\<forall>x \<in> set l. x \<in> \<int>" and "a \<in> \<int>"
    and "\<bar>a\<bar> + sum_list (map abs l) \<le> 2 ^ 53"
  shows "foldl (\<lambda>s x. fl (s + x)) a l = a + sum_list l"
  using assms
proof (induction l arbitrary: a)
  case Nil
  then show ?case by simp
next
  case (Cons x l)
  have "0 \<le> sum_list (map abs l)"
    by (rule sum_list_nonneg) auto
  then have "\<bar>a + x\<bar> \<le> 2 ^ 53"
    using Cons.prems(3) by simp
  moreover have ax: "a + x \<in> \<int>"
    using Cons.prems by simp
  ultimately have f: "fl (a + x) = a + x"
    by (intro fl_Ints)
  have "foldl (\<lambda>s x. fl (s + x)) (a + x) l = a + x + sum_list l"
  proof (rule Cons.IH)
    show "\<forall>x \<in> set l. x \<in> \<int>" using Cons.prems(1) by simp
    show "a + x \<in> \<int>" by (rule ax)
    show "\<bar>a + x\<bar> + sum_list (map abs l) \<le> 2 ^ 53"
      using Cons.prems(3) by simp
  qed
  then show ?case
    by (simp add: f)
qed

lemma fl_sqrtI:
  assumes "- 1022 \<le> e" and "2 ^ 52 < k" and "k < 2 ^ 53"
    and "((of_int k - 1 / 2) * pow2 (e - 52))\<^sup>2 < v"
    and "v < ((of_int k + 1 / 2) * pow2 (e - 52))\<^sup>2"
  shows "fl (sqrt v) = of_int k * pow2 (e - 52)"
proof -
  define q where "q = pow2 (e - 52)"
  have q: "0 < q" by (simp add: q_def)
  have pe: "pow2 e = 2 ^ 52 * q"
  proof -
    have "pow2 (e - 52 + int 52) = 2 ^ 52 * pow2 (e - 52)"
      by (rule pow2_add_nat)
    then show ?thesis by (simp add: q_def)
  qed
  have k1: "(2::real) ^ 52 + 1 \<le> of_int k"
  proof -
    have "(2::int) ^ 52 + 1 \<le> k" using assms(2) by simp
    then have "of_int ((2::int) ^ 52 + 1) \<le> (of_int k :: real)" by (simp only: of_int_le_iff)
    then show ?thesis by simp
  qed
  have k2: "of_int k + 1 \<le> (2::real) ^ 53"
  proof -
    have "k + 1 \<le> (2::int) ^ 53" using assms(3) by simp
    then have "(of_int (k + 1) :: real) \<le> of_int ((2::int) ^ 53)" by (simp only: of_int_le_iff)
    then show ?thesis by simp
  qed
  have lo0: "0 \<le> (of_int k - 1 / 2) * q"
    using k1 q by (intro mult_nonneg_nonneg) simp_all
  have hi0: "0 \<le> (of_int k + 1 / 2) * q"
    using k1 q by (intro mult_nonneg_nonneg) simp_all
  have lo: "(of_int k - 1 / 2) * q < sqrt v"
    using assms(4) lo0 unfolding q_def [symmetric] by (intro real_less_rsqrt) 
  have hi: "sqrt v < (of_int k + 1 / 2) * q"
    using assms(5) hi0 unfolding q_def [symmetric] by (intro real_less_lsqrt) simp_all
  have spos: "0 < sqrt v"
    using lo lo0 by linarith
  show ?thesis
    unfolding q_def [symmetric]
  proof (rule fl_nearest [of e, unfolded q_def [symmetric]])
    have "2 ^ 52 * q \<le> (of_int k - 1 / 2) * q"
      using k1 q by (intro mult_right_mono) simp_all
    then show "pow2 e \<le> \<bar>sqrt v\<bar>"
      using lo spos by (simp add: pe)
    have "(of_int k + 1 / 2) * q \<le> 2 ^ 53 * q"
      using k2 q by (intro mult_right_mono) simp_all
    then show "\<bar>sqrt v\<bar> < pow2 (e + 1)"
      using hi spos by (simp add: pow2_Suc pe)
    show "- 1022 \<le> e" by (rule assms(1))
    have "of_int k - 1 / 2 < sqrt v / q"
      using lo q by (simp add: pos_less_divide_eq)
    moreover have "sqrt v / q < of_int k + 1 / 2"
      using hi q by (simp add: pos_divide_less_eq)
    ultimately show "\<bar>sqrt v / q - of_int k\<bar> < 1 / 2"
      by linarith
  qed
qed

text \<open>The definitions that evaluate \<open>fl\<close> on a given number.\<close>

lemmas fl_eval = fl_def binade_def pow2_def roundTiesToEven_def compute_floorlog Let_def

section \<open>Aggregation and the order of the observations\<close>

lemma upsert_keys:
  "map fst (upsert k init f obj) = (if k \<in> fst ` set obj then map fst obj else map fst obj @ [k])"
proof (cases "map_of obj k")
  case None
  then have "k \<notin> fst ` set obj"
    by (simp add: map_of_eq_None_iff)
  with None show ?thesis by (simp add: upsert_def)
next
  case (Some v)
  then have "k \<in> fst ` set obj"
    by (metis map_of_eq_None_iff option.distinct(1))
  moreover have "map fst (map (\<lambda>(k', v'). if k' = k then (k', f v') else (k', v')) obj) = map fst obj"
    by (induction obj) auto
  ultimately show ?thesis using Some by (simp add: upsert_def)
qed

lemma map_of_upsert:
  "map_of (upsert k init f obj) =
     (map_of obj)(k \<mapsto> f (case map_of obj k of None \<Rightarrow> init | Some v \<Rightarrow> v))"
proof (cases "map_of obj k")
  case None
  then have "k \<notin> dom (map_of obj)" by (simp add: domIff)
  then show ?thesis using None
    by (simp add: upsert_def map_add_upd_left flip: map_add_def) 
next
  case (Some v)
  have "map_of (map (\<lambda>(k', v'). if k' = k then (k', f v') else (k', v')) obj) k'
      = (if k' = k then map_option f (map_of obj k) else map_of obj k')" for k'
    by (induction obj) auto
  then show ?thesis using Some by (auto simp add: upsert_def fun_eq_iff)
qed

text \<open>The entries of a grouped object: its keys, and the bucket of each key.\<close>

lemma group_keys:
  "distinct (map fst (foldl (\<lambda>obj item. upsert (key item) init (step item) obj) [] xs))
   \<and> fst ` set (foldl (\<lambda>obj item. upsert (key item) init (step item) obj) [] xs) = key ` set xs"
proof (induction xs rule: rev_induct)
  case Nil
  then show ?case by simp
next
  case (snoc x xs)
  then show ?case
    by (auto simp add: upsert_keys simp flip: set_map)
qed

lemma map_of_group:
  "map_of (foldl (\<lambda>obj item. upsert (key item) init (step item) obj) [] xs) k
     = (if k \<in> key ` set xs
        then Some (foldl (\<lambda>b item. step item b) init (filter (\<lambda>item. key item = k) xs))
        else None)"
proof (induction xs rule: rev_induct)
  case Nil
  then show ?case by simp
next
  case (snoc x xs)
  show ?case
  proof (cases "k = key x")
    case False
    with snoc show ?thesis
      by (simp add: map_of_upsert)
  next
    case True
    show ?thesis
    proof (cases "key x \<in> key ` set xs")
      case seen: True
      with snoc True show ?thesis
        by (simp add: map_of_upsert)
    next
      case new: False
      then have "filter (\<lambda>item. key item = key x) xs = []"
        by (auto simp add: filter_empty_conv) (metis imageI)
      with snoc True new show ?thesis
        by (simp add: map_of_upsert)
    qed
  qed
qed

lemma set_group:
  "set (foldl (\<lambda>obj item. upsert (key item) init (step item) obj) [] xs)
     = (\<lambda>k. (k, foldl (\<lambda>b item. step item b) init (filter (\<lambda>item. key item = k) xs)))
         ` key ` set xs"
  (is "set ?G = ?R")
proof -
  have d: "distinct (map fst ?G)"
    using group_keys [of key init step xs] by simp
  have "(k, b) \<in> set ?G \<longleftrightarrow> (k, b) \<in> ?R" for k b
  proof -
    have "(k, b) \<in> set ?G \<longleftrightarrow> map_of ?G k = Some b"
      using d by (auto dest: map_of_SomeD intro: map_of_is_SomeI)
    also have "\<dots> \<longleftrightarrow> (k, b) \<in> ?R"
      by (auto simp add: map_of_group)
    finally show ?thesis .
  qed
  then show ?thesis
    by (auto simp del: foldl_append)
qed

lemma filter_eq_distinct:
  "distinct zs \<Longrightarrow> filter (\<lambda>x. k = x) zs = (if k \<in> set zs then [k] else [])"
  by (induction zs) auto

lemma sort_key_distinct_keys_unique:
  assumes "set xs = set ys" and "distinct (map f xs)" and "distinct (map f ys)"
  shows "sort_key f xs = sort_key f ys"
proof -
  have dx: "distinct xs" and dy: "distinct ys"
    using assms by (simp_all add: distinct_map)
  have m: "mset ys = mset xs"
    using assms(1) dx dy by (simp add: set_eq_iff_mset_eq_distinct)
  have inj: "inj_on f (set xs)"
    using assms(2) by (simp add: distinct_map)
  show ?thesis
  proof (rule properties_for_sort_key)
    show "mset (sort_key f ys) = mset xs" using m by simp
    show "sorted (map f (sort_key f ys))" by simp
    fix k assume "k \<in> set (sort_key f ys)"
    then have k: "k \<in> set xs" using assms(1) by simp
    have "filter (\<lambda>x. f k = f x) zs = filter (\<lambda>x. k = x) zs" if "set zs = set xs" for zs
      using that k inj by (intro filter_cong) (auto dest: inj_onD)
    moreover have "distinct (sort_key f ys)" using dy by simp
    ultimately show "filter (\<lambda>x. f k = f x) (sort_key f ys) = filter (\<lambda>x. f k = f x) xs"
      using dx k assms(1) by (simp add: filter_eq_distinct)
  qed
qed

lemma sum_list_filter_mset_cong:
  fixes f :: "'a \<Rightarrow> real"
  assumes "mset xs = mset ys"
  shows "sum_list (map f (filter P xs)) = sum_list (map f (filter P ys))"
proof -
  have "sum_list (map f (filter P zs)) = sum_mset (image_mset f (filter_mset P (mset zs)))" for zs
    by (metis mset_filter mset_map sum_mset_sum_list)
  with assms show ?thesis by simp
qed

lemma length_filter_mset_cong:
  assumes "mset xs = mset ys"
  shows "length (filter P xs) = length (filter P ys)"
  by (metis assms mset_filter size_mset)


text \<open>
  The bucket of a month after the loop: each sum is the rounded sum, from left to
  right, over the observations of the month in the order of the input.
\<close>

lemma sfs_bucket_fold:
  "foldl (\<lambda>b item. \<lparr>b_soldQuantity = fl (b_soldQuantity b + obs_soldQuantity item),
                      b_revenue = fl (b_revenue b + revenue_or item),
                      b_count = b_count b + 1\<rparr>) b0 l
     = \<lparr>b_soldQuantity = foldl (\<lambda>s x. fl (s + x)) (b_soldQuantity b0) (map obs_soldQuantity l),
        b_revenue = foldl (\<lambda>s x. fl (s + x)) (b_revenue b0) (map revenue_or l),
        b_count = b_count b0 + length l\<rparr>"
  by (induction l arbitrary: b0) simp_all

text \<open>
  Sorting the entries of a grouped object by month gives one entry for each month of
  the input, the months in ascending order.
\<close>

lemma sort_key_months:
  assumes "distinct (map fst g)" and "fst ` set g = key ` set xs"
    and "\<And>k v. (k, v) \<in> set g \<Longrightarrow> mk (k, v) = h k"
    and "\<And>k. f (h k) = k"
  shows "sort_key f (map mk g) = map h (sort (remdups (map key xs)))"
proof -
  let ?r = "map h (sort (remdups (map key xs)))"
  have fr: "map f ?r = sort (remdups (map key xs))"
    by (simp add: assms(4) o_def)
  have fg: "map f (map mk g) = map fst g"
  proof (rule map_ext [THEN trans [OF map_map]], rule impI)
    fix e assume "e \<in> set g"
    then show "(f \<circ> mk) e = fst e"
      using assms(3) [of "fst e" "snd e"] by (simp add: assms(4))
  qed
  have "set (map mk g) = h ` fst ` set g"
  proof -
    have "mk e = h (fst e)" if "e \<in> set g" for e
      using assms(3) [of "fst e" "snd e"] that by simp
    then show ?thesis
      by (auto simp add: image_iff)
  qed
  then have s: "set (map mk g) = set ?r"
    by (simp add: assms(2))
  have "sort_key f (map mk g) = sort_key f ?r"
    using s
  proof (rule sort_key_distinct_keys_unique)
    show "distinct (map f (map mk g))"
      unfolding fg by (rule assms(1))
    show "distinct (map f ?r)"
      unfolding fr by simp
  qed
  also have "\<dots> = ?r"
  proof (rule sort_key_id_if_sorted)
    show "sorted (map f ?r)"
      unfolding fr by simp
  qed
  finally show ?thesis .
qed

lemma prepareTimeSeries_groupByMonth:
  "prepareTimeSeries (groupByMonth xs) =
     map (\<lambda>k. \<lparr>sp_date = k,
                sp_soldQuantity =
                  fl_sum (map obs_soldQuantity
                            (filter (\<lambda>item. format_yyyy_MM (obs_date item) = k) xs)),
                sp_revenue =
                  fl_sum (map revenue_or
                            (filter (\<lambda>item. format_yyyy_MM (obs_date item) = k) xs))\<rparr>)
       (sort (remdups (map (\<lambda>item. format_yyyy_MM (obs_date item)) xs)))"
  unfolding prepareTimeSeries_def
proof (rule sort_key_months)
  show "distinct (map fst (groupByMonth xs))"
    unfolding groupByMonth_def by (simp only: group_keys)
  show "fst ` set (groupByMonth xs) = (\<lambda>item. format_yyyy_MM (obs_date item)) ` set xs"
    unfolding groupByMonth_def by (simp only: group_keys)
  fix k v assume "(k, v) \<in> set (groupByMonth xs)"
  then show "(case (k, v) of (monthKey, v) \<Rightarrow>
                \<lparr>sp_date = monthKey, sp_soldQuantity = b_soldQuantity v, sp_revenue = b_revenue v\<rparr>)
           = \<lparr>sp_date = k,
              sp_soldQuantity =
                fl_sum (map obs_soldQuantity
                          (filter (\<lambda>item. format_yyyy_MM (obs_date item) = k) xs)),
              sp_revenue =
                fl_sum (map revenue_or
                          (filter (\<lambda>item. format_yyyy_MM (obs_date item) = k) xs))\<rparr>"
    unfolding groupByMonth_def
      set_group [of "\<lambda>item. format_yyyy_MM (obs_date item)" _
        "\<lambda>item b. \<lparr>b_soldQuantity = fl (b_soldQuantity b + obs_soldQuantity item),
                      b_revenue = fl (b_revenue b + revenue_or item),
                      b_count = b_count b + 1\<rparr>"]
      sfs_bucket_fold
    by (auto simp add: fl_sum_def)
qed simp

lemma psa_bucket_fold:
  "foldl (\<lambda>b item. \<lparr>pb_soldQuantity = fl (pb_soldQuantity b + obs_soldQuantity item),
                      pb_revenue = fl (pb_revenue b + obs_revenue item),
                      pb_totalCost =
                        fl (pb_totalCost b + fl (obs_soldQuantity item * obs_cost item)),
                      pb_pricePoints = pb_pricePoints b @ [obs_price item],
                      pb_count = pb_count b + 1\<rparr>) b0 l
     = \<lparr>pb_soldQuantity = foldl (\<lambda>s x. fl (s + x)) (pb_soldQuantity b0) (map obs_soldQuantity l),
        pb_revenue = foldl (\<lambda>s x. fl (s + x)) (pb_revenue b0) (map obs_revenue l),
        pb_totalCost =
          foldl (\<lambda>s x. fl (s + x)) (pb_totalCost b0)
            (map (\<lambda>item. fl (obs_soldQuantity item * obs_cost item)) l),
        pb_pricePoints = pb_pricePoints b0 @ map obs_price l,
        pb_count = pb_count b0 + length l\<rparr>"
  by (induction l arbitrary: b0) simp_all

lemma monthlyDataPoints_months:
  "monthlyDataPoints xs =
     map (\<lambda>k. \<lparr>dp_month = k,
                dp_soldQuantity =
                  fl_sum (map obs_soldQuantity
                            (filter (\<lambda>item. format_yyyy_MM (obs_date item) = k) xs)),
                dp_revenue =
                  fl_sum (map obs_revenue
                            (filter (\<lambda>item. format_yyyy_MM (obs_date item) = k) xs)),
                dp_avgPrice =
                  fl (fl_sum (map obs_price
                                (filter (\<lambda>item. format_yyyy_MM (obs_date item) = k) xs))
                        / real (length (filter (\<lambda>item. format_yyyy_MM (obs_date item) = k) xs))),
                dp_profitMargin =
                  (if fl_sum (map obs_revenue
                                (filter (\<lambda>item. format_yyyy_MM (obs_date item) = k) xs)) > 0
                   then fl (fl (fl_sum (map obs_revenue
                                          (filter (\<lambda>item. format_yyyy_MM (obs_date item) = k) xs))
                                  - fl_sum (map (\<lambda>item. fl (obs_soldQuantity item * obs_cost item))
                                              (filter (\<lambda>item. format_yyyy_MM (obs_date item) = k) xs)))
                              / fl_sum (map obs_revenue
                                          (filter (\<lambda>item. format_yyyy_MM (obs_date item) = k) xs)))
                   else 0),
                dp_priceChange = 0,
                dp_salesChange = 0\<rparr>)
       (sort (remdups (map (\<lambda>item. format_yyyy_MM (obs_date item)) xs)))"
  unfolding monthlyDataPoints_def
proof (rule sort_key_months)
  show "distinct (map fst (groupSales xs))"
    unfolding groupSales_def by (simp only: group_keys)
  show "fst ` set (groupSales xs) = (\<lambda>item. format_yyyy_MM (obs_date item)) ` set xs"
    unfolding groupSales_def by (simp only: group_keys)
  fix k v assume "(k, v) \<in> set (groupSales xs)"
  then have v: "v = foldl (\<lambda>b item. \<lparr>pb_soldQuantity = fl (pb_soldQuantity b + obs_soldQuantity item),
                      pb_revenue = fl (pb_revenue b + obs_revenue item),
                      pb_totalCost =
                        fl (pb_totalCost b + fl (obs_soldQuantity item * obs_cost item)),
                      pb_pricePoints = pb_pricePoints b @ [obs_price item],
                      pb_count = pb_count b + 1\<rparr>)
                 \<lparr>pb_soldQuantity = 0, pb_revenue = 0, pb_totalCost = 0, pb_pricePoints = [],
                  pb_count = 0\<rparr>
                 (filter (\<lambda>item. format_yyyy_MM (obs_date item) = k) xs)"
    unfolding groupSales_def
      set_group [of "\<lambda>item. format_yyyy_MM (obs_date item)" _
        "\<lambda>item b. \<lparr>pb_soldQuantity = fl (pb_soldQuantity b + obs_soldQuantity item),
                      pb_revenue = fl (pb_revenue b + obs_revenue item),
                      pb_totalCost =
                        fl (pb_totalCost b + fl (obs_soldQuantity item * obs_cost item)),
                      pb_pricePoints = pb_pricePoints b @ [obs_price item],
                      pb_count = pb_count b + 1\<rparr>"]
    by auto
  show "(case (k, v) of (month, data) \<Rightarrow>
               \<lparr>dp_month = month,
                dp_soldQuantity = pb_soldQuantity data,
                dp_revenue = pb_revenue data,
                dp_avgPrice =
                  fl (fl_sum (pb_pricePoints data) / real (length (pb_pricePoints data))),
                dp_profitMargin =
                  (if pb_revenue data > 0
                   then fl (fl (pb_revenue data - pb_totalCost data) / pb_revenue data)
                   else 0),
                dp_priceChange = 0,
                dp_salesChange = 0\<rparr>)
           = \<lparr>dp_month = k,
                dp_soldQuantity =
                  fl_sum (map obs_soldQuantity
                            (filter (\<lambda>item. format_yyyy_MM (obs_date item) = k) xs)),
                dp_revenue =
                  fl_sum (map obs_revenue
                            (filter (\<lambda>item. format_yyyy_MM (obs_date item) = k) xs)),
                dp_avgPrice =
                  fl (fl_sum (map obs_price
                                (filter (\<lambda>item. format_yyyy_MM (obs_date item) = k) xs))
                        / real (length (filter (\<lambda>item. format_yyyy_MM (obs_date item) = k) xs))),
                dp_profitMargin =
                  (if fl_sum (map obs_revenue
                                (filter (\<lambda>item. format_yyyy_MM (obs_date item) = k) xs)) > 0
                   then fl (fl (fl_sum (map obs_revenue
                                          (filter (\<lambda>item. format_yyyy_MM (obs_date item) = k) xs))
                                  - fl_sum (map (\<lambda>item. fl (obs_soldQuantity item * obs_cost item))
                                              (filter (\<lambda>item. format_yyyy_MM (obs_date item) = k) xs)))
                              / fl_sum (map obs_revenue
                                          (filter (\<lambda>item. format_yyyy_MM (obs_date item) = k) xs)))
                   else 0),
                dp_priceChange = 0,
                dp_salesChange = 0\<rparr>"
    unfolding v psa_bucket_fold by (simp add: fl_sum_def)
qed simp

text \<open>Sums of whole amounts within 53 bits are exact, in a month as in the whole input.\<close>

lemma exact_total_Ints:
  assumes "exact_total vs" and "v \<in> set vs"
  shows "v \<in> \<int>"
proof -
  have "v = of_int \<lfloor>v\<rfloor>"
    using assms by (simp add: exact_total_def list_all_iff)
  then show ?thesis
    by (metis Ints_of_int)
qed

lemma fl_sum_exact_total:
  assumes "exact_total vs"
  shows "fl_sum vs = sum_list vs"
proof -
  have "foldl (\<lambda>s x. fl (s + x)) 0 vs = 0 + sum_list vs"
  proof (rule fl_sum_exact)
    show "\<forall>x \<in> set vs. x \<in> \<int>"
      using assms by (auto intro: exact_total_Ints)
    show "\<bar>0\<bar> + sum_list (map abs vs) \<le> (2::real) ^ 53"
      using assms by (simp add: exact_total_def)
  qed simp
  then show ?thesis
    by (simp add: fl_sum_def)
qed

lemma sum_list_abs_filter_le:
  fixes f :: "'a \<Rightarrow> real"
  shows "sum_list (map abs (map f (filter P xs))) \<le> sum_list (map abs (map f xs))"
  by (induction xs) auto

lemma exact_total_filter:
  assumes "exact_total (map f xs)"
  shows "exact_total (map f (filter P xs))"
proof -
  have "sum_list (map abs (map f (filter P xs))) \<le> 2 ^ 53"
    using sum_list_abs_filter_le [of f P xs] assms by (simp add: exact_total_def)
  moreover have "list_all (\<lambda>v. v = of_int \<lfloor>v\<rfloor>) (map f (filter P xs))"
    using assms by (auto simp add: exact_total_def list_all_iff)
  ultimately show ?thesis
    by (simp add: exact_total_def)
qed

lemma exact_total_mset:
  assumes "mset xs = mset ys" and "exact_total (map f xs)"
  shows "exact_total (map f ys)"
proof -
  have s: "set xs = set ys"
    using assms(1) by (rule mset_eq_setD)
  have "mset (map (\<lambda>x. \<bar>f x\<bar>) xs) = mset (map (\<lambda>x. \<bar>f x\<bar>) ys)"
    using assms(1) by simp
  then have "sum_list (map (\<lambda>x. \<bar>f x\<bar>) xs) = sum_list (map (\<lambda>x. \<bar>f x\<bar>) ys)"
    by (metis sum_mset_sum_list)
  then show ?thesis
    using assms(2) s by (simp add: exact_total_def list_all_iff o_def)
qed

lemma fl_sum_month_cong:
  assumes "mset xs = mset ys" and "exact_total (map f xs)"
  shows "fl_sum (map f (filter P xs)) = fl_sum (map f (filter P ys))"
proof -
  have "fl_sum (map f (filter P xs)) = sum_list (map f (filter P xs))"
    using assms(2) by (intro fl_sum_exact_total exact_total_filter)
  also have "\<dots> = sum_list (map f (filter P ys))"
    using assms(1) by (rule sum_list_filter_mset_cong)
  also have "\<dots> = fl_sum (map f (filter P ys))"
    using exact_total_mset [OF assms] by (intro fl_sum_exact_total [symmetric] exact_total_filter)
  finally show ?thesis .
qed

lemma months_mset:
  assumes "mset xs = mset ys"
  shows "sort (remdups (map key xs)) = sort (remdups (map key ys))"
proof (rule sorted_distinct_set_unique)
  have "set xs = set ys"
    using assms by (rule mset_eq_setD)
  then show "set (sort (remdups (map key xs))) = set (sort (remdups (map key ys)))"
    by simp
qed simp_all

lemma exact_products:
  assumes "exact_total (map (\<lambda>item. g item * c item) xs)"
  shows "map (\<lambda>item. fl (g item * c item)) (filter P xs)
           = map (\<lambda>item. g item * c item) (filter P xs)"
proof (rule map_cong [OF refl])
  fix item assume "item \<in> set (filter P xs)"
  then have i: "item \<in> set xs" by simp
  then have "g item * c item \<in> set (map (\<lambda>item. g item * c item) xs)"
    by auto
  then have w: "g item * c item \<in> \<int>"
    using assms by (rule exact_total_Ints [rotated])
  have "\<bar>g item * c item\<bar> \<le> sum_list (map abs (map (\<lambda>item. g item * c item) xs))"
    using i by (intro member_le_sum_list) auto
  then have "\<bar>g item * c item\<bar> \<le> 2 ^ 53"
    using assms by (simp add: exact_total_def)
  with w show "fl (g item * c item) = g item * c item"
    by (rule fl_Ints)
qed

text \<open>The roundings that the aggregation of \<open>cent_sales\<close> performs in the two orders.\<close>

lemma cent_roundings:
  "fl (1 / 10) = 3602879701896397 / 36028797018963968"
  "fl (501 / 100) = 2820379266640773 / 562949953421312"
  "fl (1999 / 100) = 5626684784446013 / 281474976710656"
  "fl (3602879701896397 / 36028797018963968) = 3602879701896397 / 36028797018963968"
  "fl (2820379266640773 / 562949953421312) = 2820379266640773 / 562949953421312"
  "fl (5626684784446013 / 281474976710656) = 5626684784446013 / 281474976710656"
  "fl (1) = 1"
  "fl (2) = 2"
  "fl (184107152766905869 / 36028797018963968) = 359584282747863 / 70368744177664"
  "fl (3) = 3"
  "fl (7065021915437465 / 281474976710656) = 7065021915437465 / 281474976710656"
  "fl (14073748835532799 / 562949953421312) = 25"
  "fl (904322805175995597 / 36028797018963968) = 3532510957718733 / 140737488355328"
  "fl (0) = 0"
  "fl (7065021915437465 / 844424930131968) = 4710014610291643 / 562949953421312"
  "fl (1177503652572911 / 140737488355328) = 1177503652572911 / 140737488355328"
  "fl (3532510957718733 / 140737488355328) = 3532510957718733 / 140737488355328"
  by (simp_all add: fl_eval)

text \<open>
  C7, as the claim states it, fails. The three sales of \<open>cent_sales\<close> fall in one month
  and have the revenues and prices 0.1, 5.01 and 19.99. In this order the revenue sum is
  \<open>25.099999999999998\<close> and the average price \<open>8.366666666666665\<close>; in the reverse
  order they are \<open>25.1\<close> and \<open>8.366666666666667\<close>. The quantity sum is 3 in both.
\<close>

theorem cent_sums_depend_on_order:
  "mset cent_sales = mset (rev cent_sales)
   \<and> map sp_soldQuantity (prepareTimeSeries (groupByMonth cent_sales)) = [3]
   \<and> map sp_revenue (prepareTimeSeries (groupByMonth cent_sales)) = [7065021915437465 / 2 ^ 48]
   \<and> map sp_revenue (prepareTimeSeries (groupByMonth (rev cent_sales))) = [3532510957718733 / 2 ^ 47]
   \<and> map dp_avgPrice (monthlyDataPoints cent_sales) = [4710014610291643 / 2 ^ 49]
   \<and> map dp_avgPrice (monthlyDataPoints (rev cent_sales)) = [1177503652572911 / 2 ^ 47]"
  by (simp add: prepareTimeSeries_groupByMonth monthlyDataPoints_months cent_sales_def
      format_yyyy_MM_def revenue_or_def fl_sum_def cent_roundings)

text \<open>
  C7, amended. Two observation lists that are permutations of each other give the same
  months, in the same order, in the monthly series and in the data points of the
  correlation analysis. They give the same quantity sums, revenue sums, average prices
  and profit margins when the amounts that are added are whole numbers whose absolute
  values add up to at most \<open>2 ^ 53\<close>: such a sum of doubles is exact in every order.
\<close>

theorem monthly_sums_order_independent:
  assumes "mset xs = mset ys"
  shows "map sp_date (prepareTimeSeries (groupByMonth xs))
           = map sp_date (prepareTimeSeries (groupByMonth ys))
       \<and> (exact_total (map obs_soldQuantity xs) \<longrightarrow>
            map sp_soldQuantity (prepareTimeSeries (groupByMonth xs))
              = map sp_soldQuantity (prepareTimeSeries (groupByMonth ys)))
       \<and> (exact_total (map revenue_or xs) \<longrightarrow>
            map sp_revenue (prepareTimeSeries (groupByMonth xs))
              = map sp_revenue (prepareTimeSeries (groupByMonth ys)))
       \<and> map dp_month (monthlyDataPoints xs) = map dp_month (monthlyDataPoints ys)
       \<and> (exact_total (map obs_soldQuantity xs) \<longrightarrow>
            map dp_soldQuantity (monthlyDataPoints xs)
              = map dp_soldQuantity (monthlyDataPoints ys))
       \<and> (exact_total (map obs_revenue xs) \<longrightarrow>
            map dp_revenue (monthlyDataPoints xs) = map dp_revenue (monthlyDataPoints ys))
       \<and> (exact_total (map obs_price xs) \<longrightarrow>
            map dp_avgPrice (monthlyDataPoints xs) = map dp_avgPrice (monthlyDataPoints ys))
       \<and> (exact_total (map obs_revenue xs)
            \<and> exact_total (map (\<lambda>item. obs_soldQuantity item * obs_cost item) xs) \<longrightarrow>
            map dp_profitMargin (monthlyDataPoints xs)
              = map dp_profitMargin (monthlyDataPoints ys))"
proof -
  note months = months_mset [OF assms, of "\<lambda>item. format_yyyy_MM (obs_date item)"]
  note sums = fl_sum_month_cong [OF assms]
  have len: "length (filter P xs) = length (filter P ys)" for P
    using assms by (rule length_filter_mset_cong)
  have costs: "fl_sum (map (\<lambda>item. fl (obs_soldQuantity item * obs_cost item)) (filter P xs))
             = fl_sum (map (\<lambda>item. fl (obs_soldQuantity item * obs_cost item)) (filter P ys))"
    if e: "exact_total (map (\<lambda>item. obs_soldQuantity item * obs_cost item) xs)" for P
    unfolding exact_products [OF e] exact_products [OF exact_total_mset [OF assms e]]
    using e by (rule sums)
  show ?thesis
    unfolding prepareTimeSeries_groupByMonth monthlyDataPoints_months months
    by (simp add: o_def sums len costs)
qed

theorem monthly_sums_order_independent_witness:
  "mset winter_sales = mset (rev winter_sales)
   \<and> exact_total (map obs_soldQuantity winter_sales)
   \<and> exact_total (map revenue_or winter_sales)
   \<and> exact_total (map obs_revenue winter_sales)
   \<and> exact_total (map obs_price winter_sales)
   \<and> exact_total (map (\<lambda>item. obs_soldQuantity item * obs_cost item) winter_sales)
   \<and> map sp_date (prepareTimeSeries (groupByMonth (rev winter_sales))) = [(2024, 0), (2024, 1)]
   \<and> map sp_soldQuantity (prepareTimeSeries (groupByMonth (rev winter_sales))) = [5, 1]
   \<and> map sp_revenue (prepareTimeSeries (groupByMonth (rev winter_sales))) = [54, 20]
   \<and> map dp_avgPrice (monthlyDataPoints (rev winter_sales)) = [11, 20]
   \<and> map dp_profitMargin (monthlyDataPoints (rev winter_sales))
       = map dp_profitMargin (monthlyDataPoints winter_sales)"
proof -
  have perm: "mset winter_sales = mset (rev winter_sales)"
    by simp
  have whole: "exact_total (map obs_soldQuantity winter_sales)"
    "exact_total (map revenue_or winter_sales)"
    "exact_total (map obs_revenue winter_sales)"
    "exact_total (map obs_price winter_sales)"
    "exact_total (map (\<lambda>item. obs_soldQuantity item * obs_cost item) winter_sales)"
    by (simp_all add: exact_total_def winter_sales_def revenue_or_def)
  have series: "prepareTimeSeries (groupByMonth winter_sales)
       = [\<lparr>sp_date = (2024, 0), sp_soldQuantity = 5, sp_revenue = 54\<rparr>,
          \<lparr>sp_date = (2024, 1), sp_soldQuantity = 1, sp_revenue = 20\<rparr>]"
    by (simp add: prepareTimeSeries_groupByMonth winter_sales_def format_yyyy_MM_def
        revenue_or_def fl_sum_def fl_Ints)
  have prices: "map dp_avgPrice (monthlyDataPoints winter_sales) = [11, 20]"
    by (simp add: monthlyDataPoints_months winter_sales_def format_yyyy_MM_def
        fl_sum_def fl_Ints)
  show ?thesis
    using monthly_sums_order_independent [OF perm] perm whole
    by (simp add: series prices)
qed

section \<open>A constant price and the correlation coefficient\<close>

text \<open>
  The roundings that the analysis of \<open>constant_price_sales\<close> performs, each checked
  from the definition of \<open>fl\<close>.
\<close>

lemma constant_price_roundings:
  "fl (1 / 10) = 3602879701896397 / 36028797018963968"
  "fl (3602879701896397 / 9007199254740992) = 3602879701896397 / 9007199254740992"
  "fl (3602879701896397 / 18014398509481984) = 3602879701896397 / 18014398509481984"
  "fl (10808639105689191 / 36028797018963968) = 1351079888211149 / 4503599627370496"
  "fl (4) = 4"
  "fl (0) = 0"
  "fl (2) = 2"
  "fl (6) = 6"
  "fl (10808639105689191 / 18014398509481984) = 1351079888211149 / 2251799813685248"
  "fl (3) = 3"
  "fl (1351079888211149 / 4503599627370496) = 1351079888211149 / 4503599627370496"
  "fl (3602879701896397 / 36028797018963968) = 3602879701896397 / 36028797018963968"
  "fl (1) = 1"
  "fl (1351079888211149 / 13510798882111488) = 7205759403792795 / 72057594037927936"
  "fl (1351079888211149 / 2251799813685248) = 1351079888211149 / 2251799813685248"
  "fl (1 / 72057594037927936) = 1 / 72057594037927936"
  "fl (1 / 7205759403792794) = 5 / 36028797018963968"
  "fl (1 / 2) = 1 / 2"
  "fl (- (1 / 72057594037927936)) = - (1 / 72057594037927936)"
  "fl (- (1 / 7205759403792795)) = - (5629499534213119 / 40564819207303340847894502572032)"
  "fl (- 3) = - 3"
  "fl (- (1 / 2)) = - (1 / 2)"
  "fl (5 / 36028797018963968) = 5 / 36028797018963968"
  "fl (1 / 40564819207303340847894502572032) = 1 / 40564819207303340847894502572032"
  "fl (5 / 72057594037927936) = 5 / 72057594037927936"
  "fl (5629499534213119 / 81129638414606681695789005144064) = 5629499534213119 / 81129638414606681695789005144064"
  "fl (11258999068426239 / 81129638414606681695789005144064) = 5 / 36028797018963968"
  "fl (25 / 1298074214633706907132624082305024) = 25 / 1298074214633706907132624082305024"
  "fl (31691265005705723778418511708161 / 1645504557321206042154969182557350504982735865633579863348609024) = 3518437208883199 / 182687704666362864775460604089535377456991567872"
  "fl (7036874417766399 / 182687704666362864775460604089535377456991567872) = 7036874417766399 / 182687704666362864775460604089535377456991567872"
  "fl (1 / 4) = 1 / 4"
  "fl (15 / 36028797018963968) = 15 / 36028797018963968"
  "fl (21110623253299197 / 182687704666362864775460604089535377456991567872) = 5277655813324799 / 45671926166590716193865151022383844364247891968"
  "fl (1 / 1645504557321206042154969182557350504982735865633579863348609024) = 1 / 1645504557321206042154969182557350504982735865633579863348609024"
  "fl (190147590034234374195708461842431 / 1645504557321206042154969182557350504982735865633579863348609024) = 5277655813324799 / 45671926166590716193865151022383844364247891968"
  "fl (3 / 2) = 3 / 2"
  "fl (15832967439974397 / 91343852333181432387730302044767688728495783936) = 3958241859993599 / 22835963083295358096932575511191922182123945984"
  "fl (8444249301319680 / 8444249301319679) = 4503599627370497 / 4503599627370496"
  "fl (4503599627370497 / 9007199254740992) = 4503599627370497 / 9007199254740992"
  "fl (9007199254740993 / 9007199254740992) = 1"
  "fl (7 / 10) = 3152519739159347 / 4503599627370496"
  "fl (2 / 5) = 3602879701896397 / 9007199254740992"
  "fl (1 / 5) = 3602879701896397 / 18014398509481984"
  "fl (4 / 5) = 3602879701896397 / 4503599627370496"
  "fl (3 / 5) = 5404319552844595 / 9007199254740992"
  "fl (3 / 10) = 5404319552844595 / 18014398509481984"
  by (simp_all add: fl_eval)

lemma constant_price_points:
  "monthlyDataPoints (filterBySku constant_price_sales None) =
     [\<lparr>dp_month = (2024, 0), dp_soldQuantity = 4,
       dp_revenue = 3602879701896397 / 9007199254740992,
       dp_avgPrice = 3602879701896397 / 36028797018963968,
       dp_profitMargin = 1, dp_priceChange = 0, dp_salesChange = 0\<rparr>,
      \<lparr>dp_month = (2024, 1), dp_soldQuantity = 6,
       dp_revenue = 1351079888211149 / 2251799813685248,
       dp_avgPrice = 7205759403792795 / 72057594037927936,
       dp_profitMargin = 1, dp_priceChange = 0, dp_salesChange = 0\<rparr>,
      \<lparr>dp_month = (2024, 2), dp_soldQuantity = 3,
       dp_revenue = 1351079888211149 / 4503599627370496,
       dp_avgPrice = 3602879701896397 / 36028797018963968,
       dp_profitMargin = 1, dp_priceChange = 0, dp_salesChange = 0\<rparr>,
      \<lparr>dp_month = (2024, 3), dp_soldQuantity = 3,
       dp_revenue = 1351079888211149 / 4503599627370496,
       dp_avgPrice = 3602879701896397 / 36028797018963968,
       dp_profitMargin = 1, dp_priceChange = 0, dp_salesChange = 0\<rparr>]"
  by (simp add: monthlyDataPoints_months filterBySku_def constant_price_sales_def
      format_yyyy_MM_def fl_sum_def constant_price_roundings)

lemma constant_price_changes:
  "tl (withChanges (monthlyDataPoints (filterBySku constant_price_sales None))) =
     [\<lparr>dp_month = (2024, 1), dp_soldQuantity = 6,
       dp_revenue = 1351079888211149 / 2251799813685248,
       dp_avgPrice = 7205759403792795 / 72057594037927936,
       dp_profitMargin = 1, dp_priceChange = 5 / 36028797018963968, dp_salesChange = 1 / 2\<rparr>,
      \<lparr>dp_month = (2024, 2), dp_soldQuantity = 3,
       dp_revenue = 1351079888211149 / 4503599627370496,
       dp_avgPrice = 3602879701896397 / 36028797018963968,
       dp_profitMargin = 1, dp_priceChange = - (5629499534213119 / 40564819207303340847894502572032), dp_salesChange = - (1 / 2)\<rparr>,
      \<lparr>dp_month = (2024, 3), dp_soldQuantity = 3,
       dp_revenue = 1351079888211149 / 4503599627370496,
       dp_avgPrice = 3602879701896397 / 36028797018963968,
       dp_profitMargin = 1, dp_priceChange = 0, dp_salesChange = 0\<rparr>]"
  by (simp add: constant_price_points withChanges_def Let_def constant_price_roundings)

text \<open>
  The square root in the denominator: the double \<open>8444249301319679 * 2 ^ (- 104)\<close> is the nearest
  to it, since the argument lies between the squares of the two midpoints around it.
\<close>

lemma constant_price_denominator:
  "fl (sqrt (3958241859993599 / 22835963083295358096932575511191922182123945984)) = 8444249301319679 / 20282409603651670423947251286016"
proof -
  have "fl (sqrt (3958241859993599 / 22835963083295358096932575511191922182123945984)) = of_int 8444249301319679 * pow2 (-52 - 52)"
    by (rule fl_sqrtI) (simp_all add: pow2_def power2_eq_square)
  then show ?thesis
    by (simp add: pow2_def)
qed

lemma constant_price_pearson:
  "calculatePearsonCorrelation (tl (withChanges (monthlyDataPoints (filterBySku constant_price_sales None))))
     = Num (1 + 1 / 2 ^ 52)"
  unfolding constant_price_changes
  by (simp add: calculatePearsonCorrelation_def Let_def fl_sum_def constant_price_roundings
      constant_price_denominator upt_rec)

text \<open>
  C8. The claim: when the average price is the same in every month, every data point
  has \<open>priceChange = 0\<close> and the coefficient returned is 0. In \<open>constant_price_sales\<close>
  every sale has the price 0.1. The mean of the three equal prices of February,
  \<open>(0.1 + 0.1 + 0.1) / 3\<close>, is computed as the next double above 0.1, so the price
  changes of February and March are not 0 (about \<open>1.4e-16\<close> and \<open>-1.4e-16\<close>), and
  \<open>correlatePriceWithSales\<close> returns the coefficient \<open>1.0000000000000002\<close>, above the
  range of a correlation, with the narrative of a strong positive correlation.
\<close>

theorem constant_price_spurious_correlation:
  "list_all (\<lambda>item. obs_price item = fl 0.1) constant_price_sales
   \<and> map dp_avgPrice (monthlyDataPoints (filterBySku constant_price_sales None))
       = [fl 0.1, fl 0.1 + 1 / 2 ^ 56, fl 0.1, fl 0.1]
   \<and> map dp_priceChange
         (cr_dataPoints (correlatePriceWithSales toFixed constant_price_sales None))
       = [5 / 2 ^ 55, - (5629499534213119 / 2 ^ 105), 0]
   \<and> cr_correlation (correlatePriceWithSales toFixed constant_price_sales None)
       = Num (1 + 1 / 2 ^ 52)
   \<and> cr_confidence (correlatePriceWithSales toFixed constant_price_sales None) = Num (1 / 4)
   \<and> cr_analysis (correlatePriceWithSales toFixed constant_price_sales None)
       = ''Analysis shows a strong positive correlation ('' @ toFixed (Num (1 + 1 / 2 ^ 52)) 3
           @ '') between price changes and sales performance with low confidence based on ''
           @ show_nat 3
           @ '' data points. This suggests price increases lead to sales increases (inelastic demand).''"
proof -
  have ne: "constant_price_sales \<noteq> []" "filterBySku constant_price_sales None \<noteq> []"
    by (simp_all add: constant_price_sales_def filterBySku_def)
  have prices: "list_all (\<lambda>item. obs_price item = fl 0.1) constant_price_sales"
    by (simp add: constant_price_sales_def)
  have means: "map dp_avgPrice (monthlyDataPoints (filterBySku constant_price_sales None))
       = [fl 0.1, fl 0.1 + 1 / 2 ^ 56, fl 0.1, fl 0.1]"
    by (simp add: constant_price_points constant_price_roundings)
  have result: "map dp_priceChange
         (cr_dataPoints (correlatePriceWithSales toFixed constant_price_sales None))
       = [5 / 2 ^ 55, - (5629499534213119 / 2 ^ 105), 0]
   \<and> cr_correlation (correlatePriceWithSales toFixed constant_price_sales None)
       = Num (1 + 1 / 2 ^ 52)
   \<and> cr_confidence (correlatePriceWithSales toFixed constant_price_sales None) = Num (1 / 4)
   \<and> cr_analysis (correlatePriceWithSales toFixed constant_price_sales None)
       = ''Analysis shows a strong positive correlation ('' @ toFixed (Num (1 + 1 / 2 ^ 52)) 3
           @ '') between price changes and sales performance with low confidence based on ''
           @ show_nat 3
           @ '' data points. This suggests price increases lead to sales increases (inelastic demand).''"
    unfolding correlatePriceWithSales_def Let_def constant_price_pearson
    by (simp add: ne constant_price_changes PSA_calculateConfidence_def generateAnalysis_def
        constant_price_roundings numeral_3_eq_3 del: show_nat.simps)
  show ?thesis
    using prices means result by blast
qed

section \<open>Series shorter than two points\<close>

lemma NaN_absorbs [simp]:
  "x + NaN = NaN" "NaN + x = NaN" "x * NaN = NaN" "NaN * x = NaN"
  "x / NaN = NaN" "NaN / x = NaN" "x - NaN = NaN" "NaN - x = NaN"
  "Math_max x NaN = NaN" "Math_max NaN x = NaN"
  by (cases x; simp add: minus_jsnum_def)+

lemma js_nth_replicate_NaN [simp]: "js_nth (replicate p NaN) i = NaN"
  by (auto simp add: js_nth_def)

lemma map_const_replicate: "map (\<lambda>i. c) xs = replicate (length xs) c"
  by (induction xs) simp_all

lemma linearRegression_one_point:
  "linearRegression [Num 0] [Num q] = (NaN, NaN)"
  by (simp add: linearRegression_def Let_def reduce_sum_def indexed_def js_nth_def minus_jsnum_def)

lemma generateARIMAForecasts_one_point: "generateARIMAForecasts [q] p = replicate p NaN"
  by (simp add: generateARIMAForecasts_def linearRegression_one_point map_const_replicate)

lemma js_slice_one: "js_slice [q] 0 1 = [q]"
  by (simp add: js_slice_def)

lemma calculateTrend_one: "calculateTrend [q] = [Num q]"
  by (simp add: calculateTrend_def js_slice_one real_sum_def)

lemma generateThetaForecasts_one_point: "generateThetaForecasts [q] p = replicate p NaN"
  by (simp add: generateThetaForecasts_def calculateTrend_one js_nth_def map_const_replicate)

lemma combine_NaN: "combine w (replicate p NaN) e t i = NaN"
  by (simp add: combine_def)

lemma generateSingleForecast_one_point: "generateSingleForecast [q] p = replicate p NaN"
  by (simp add: generateSingleForecast_def generateARIMAForecasts_one_point combine_NaN map_const_replicate)

lemma movingAverage_empty: "generateMovingAverageForecasts [] p = replicate p NaN"
  by (simp add: generateMovingAverageForecasts_def js_slice_def real_sum_def js_nth_def map_const_replicate)

lemma movingAverage_one_point: "generateMovingAverageForecasts [b] p = replicate p NaN"
  by (simp add: generateMovingAverageForecasts_def js_slice_def real_sum_def js_nth_def map_const_replicate upto.simps minus_jsnum_def)

lemma generateETSForecasts_empty: "generateETSForecasts [] p = replicate p NaN"
  by (simp add: generateETSForecasts_def js_nth_def map_const_replicate)

lemma js_slice_take: "0 \<le> e \<Longrightarrow> js_slice xs 0 e = take (nat e) xs"
  by (auto simp add: js_slice_def Let_def min_def)

lemma js_nth_Cons_0: "js_nth (x # xs) 0 = x"
  by (simp add: js_nth_def)

lemma validation_forecasts_start_with_NaN:
  assumes "2 \<le> length trainingData"
  shows "js_nth (generateValidationForecasts trainingData (length trainingData - 1)) 0 = NaN"
proof -
  let ?qs = "map sp_soldQuantity trainingData"
  let ?e = "int (length ?qs) - int (length trainingData - 1) + int 1 - 1"
  obtain q qs' where qs: "?qs = q # qs'"
    using assms by (cases ?qs) auto
  have e: "?e = 1"
    using assms by simp
  have sl: "js_slice ?qs 0 1 = [q]"
    unfolding qs by (simp add: js_slice_take)
  have up: "[1..<length trainingData - 1 + 1] = 1 # [2..<length trainingData]"
  proof -
    have "1 < length trainingData"
      using assms by simp
    then have "[1..<length trainingData] = 1 # [Suc 1..<length trainingData]"
      by (rule upt_conv_Cons)
    moreover have "length trainingData - 1 + 1 = length trainingData"
      using assms by simp
    moreover have "Suc 1 = 2"
      by simp
    ultimately show ?thesis
      by (simp only:)
  qed
  have "js_nth (generateValidationForecasts trainingData (length trainingData - 1)) 0
      = js_nth (generateSingleForecast (js_slice ?qs 0 ?e) 1) 0"
    unfolding generateValidationForecasts_def Let_def up
    by (simp only: list.map(2) js_nth_Cons_0)
  also have "\<dots> = js_nth (generateSingleForecast [q] 1) 0"
    by (subst e, subst sl) (rule refl)
  also have "\<dots> = NaN"
    unfolding generateSingleForecast_one_point by (rule js_nth_replicate_NaN)
  finally show ?thesis .
qed

lemma linearRegression_empty: "linearRegression [] [] = (NaN, NaN)"
  by (simp add: linearRegression_def Let_def reduce_sum_def indexed_def minus_jsnum_def)

lemma generateARIMAForecasts_empty: "generateARIMAForecasts [] p = replicate p NaN"
  by (simp add: generateARIMAForecasts_def linearRegression_empty map_const_replicate)

lemma generateSingleForecast_empty: "generateSingleForecast [] p = replicate p NaN"
  by (simp add: generateSingleForecast_def generateARIMAForecasts_empty combine_NaN map_const_replicate)

text \<open>
  On a one-point series the smoothing loop of the ETS forecaster does not run: the level
  is the quantity, the trend is 0 and the seasonal of the first month is the quantity,
  so the forecast is the rounded quantity, and twice the quantity every twelfth period.
\<close>

lemma generateETSForecasts_one_point:
  "generateETSForecasts [q] p
     = map (\<lambda>i. Math_max (Num 0) (Math_round (Num (if i mod 12 = 0 then q + q else q))))
         [1..<p + 1]"
proof -
  have s: "(replicate 12 (Num 0))[0 := js_or (Num q) (Num 0)] ! (i mod 12)
             = (if i mod 12 = 0 then Num q else Num 0)" for i
  proof -
    have "i mod 12 < 12" by simp
    then show ?thesis
      by (cases "i mod 12 = 0") (auto simp add: js_or_def nth_list_update)
  qed
  have seasonals:
    "foldl (\<lambda>seasonals i. seasonals[i := js_or (js_nth (map Num [q]) (int i)) (Num 0)])
       (replicate 12 (Num 0)) [0..<min 12 (length [q])]
     = (replicate 12 (Num 0))[0 := js_or (Num q) (Num 0)]"
    by (simp add: js_nth_def)
  show ?thesis
    unfolding generateETSForecasts_def Let_def
    unfolding seasonals
    by (simp add: js_nth_def s del: upt_Suc)
qed

text \<open>
  C4. The claim: on a training series of fewer than two points every forecaster returns
  a constant forecast of finite numbers, and a model whose window is empty is left out
  of the ensemble. On the empty and on the one-point series the moving-average
  forecaster (window \<open>min(6, \<lfloor>n / 2\<rfloor>) = 0\<close>) returns \<open>NaN\<close> for every period. The ETS
  forecaster returns \<open>NaN\<close> on the empty series and finite forecasts on a one-point
  series. \<open>generateSingleForecast\<close> combines its three models without leaving
  any out: on the empty and on the one-point series, where the regression and the
  decomposition (smoothing window \<open>min(5, \<lfloor>n / 2\<rfloor>) = 0\<close>) return \<open>NaN\<close>, the ensemble
  forecast is \<open>NaN\<close> for every period.
\<close>

theorem forecasts_below_two_points:
  "generateMovingAverageForecasts [] p = replicate p NaN
   \<and> generateMovingAverageForecasts [b] p = replicate p NaN
   \<and> generateETSForecasts [] p = replicate p NaN
   \<and> generateETSForecasts [q] p
       = map (\<lambda>i. Math_max (Num 0) (Math_round (Num (if i mod 12 = 0 then q + q else q))))
           [1..<p + 1]
   \<and> generateSingleForecast [] p = replicate p NaN
   \<and> generateSingleForecast [q] p = replicate p NaN"
  by (simp only: movingAverage_empty movingAverage_one_point generateETSForecasts_empty
      generateETSForecasts_one_point generateSingleForecast_empty
      generateSingleForecast_one_point simp_thms)

text \<open>
  C6. The claim: on every non-empty training series every model forecast and every
  combined forecast is a non-negative integer. On every one-point series the regression
  model, the decomposition model and the combined forecast of \<open>generateSingleForecast\<close>
  are \<open>NaN\<close> for every period.
\<close>

theorem one_point_forecasts_are_NaN:
  "generateARIMAForecasts [q] p = replicate p NaN
   \<and> generateThetaForecasts [q] p = replicate p NaN
   \<and> generateSingleForecast [q] p = replicate p NaN"
  by (simp only: generateARIMAForecasts_one_point generateThetaForecasts_one_point
      generateSingleForecast_one_point simp_thms)

section \<open>The two weight tables\<close>

lemma flat_quantities: "map mb_soldQuantity flat_months = [10, 10, 10, 10]"
  by (simp add: flat_months_def)

lemma flat_volatility: "SFS_calculateVolatility [10, 10, 10, 10] = Num 0"
  by (simp add: SFS_calculateVolatility_def reduce_sum_def Math_pow2_def minus_jsnum_def)

lemma FAS_volatility_is_SFS_volatility: "FAS_calculateVolatility qs = SFS_calculateVolatility qs"
  by (simp add: FAS_calculateVolatility_def SFS_calculateVolatility_def)

lemma flat_trend: "calculateTrendStrength [10, 10, 10, 10] = Num 0"
  by code_simp

lemma flat_seasonal_factors: "SFS_calculateSeasonalFactors [10, 10, 10, 10] = [(0, Num 1), (1, Num 1), (2, Num 1), (3, Num 1)]"
  by code_simp

lemma flat_seasonality: "calculateSeasonalityStrength [10, 10, 10, 10] = Num 0"
  by (simp add: calculateSeasonalityStrength_def flat_seasonal_factors reduce_sum_def Math_pow2_def minus_jsnum_def)

text \<open>
  C5, as the claim states it, fails: on a flat series (volatility, trend strength and
  seasonality strength all 0) \<open>calculateModelWeights\<close> takes the balanced default
  while \<open>calculateForecastWeights\<close> takes its low-volatility row.
\<close>

theorem weight_tables_differ: "calculateModelWeights (map mb_soldQuantity flat_months) 0 = \<lparr>arima = 0.4, ets = 0.3, theta = 0.3\<rparr>
  \<and> calculateForecastWeights flat_months 0 = \<lparr>linear = 0.6, movingAvg = 0.2, expSmoothing = 0.2\<rparr>"
  by (simp add: calculateModelWeights_def calculateForecastWeights_def flat_quantities flat_volatility flat_trend flat_seasonality
      FAS_volatility_is_SFS_volatility)

text \<open>
  C5, amended. \<open>calculateModelWeights\<close> selects its weights by the rule table in
  priority order; \<open>calculateForecastWeights\<close> selects by volatility alone; and the
  two select the same weights (trend model, moving-average model, smoothing model)
  exactly when neither table leaves its balanced default.
\<close>

theorem weight_tables_agree_iff_default:
  "calculateModelWeights quantities i =
     (if Num 0.5 < SFS_calculateVolatility quantities then \<lparr>arima = 0.2, ets = 0.5, theta = 0.3\<rparr>
      else if Num 0.3 < calculateTrendStrength quantities then \<lparr>arima = 0.5, ets = 0.3, theta = 0.2\<rparr>
      else if Num 0.4 < calculateSeasonalityStrength quantities then \<lparr>arima = 0.3, ets = 0.4, theta = 0.3\<rparr>
      else \<lparr>arima = 0.4, ets = 0.3, theta = 0.3\<rparr>)
   \<and> calculateForecastWeights trainingData j =
     (if Num 0.5 < SFS_calculateVolatility (map mb_soldQuantity trainingData)
      then \<lparr>linear = 0.2, movingAvg = 0.4, expSmoothing = 0.4\<rparr>
      else if SFS_calculateVolatility (map mb_soldQuantity trainingData) < Num 0.2
      then \<lparr>linear = 0.6, movingAvg = 0.2, expSmoothing = 0.2\<rparr>
      else \<lparr>linear = 0.4, movingAvg = 0.3, expSmoothing = 0.3\<rparr>)
   \<and> ((linear (calculateForecastWeights trainingData j)
          = arima (calculateModelWeights (map mb_soldQuantity trainingData) i)
        \<and> movingAvg (calculateForecastWeights trainingData j)
          = theta (calculateModelWeights (map mb_soldQuantity trainingData) i)
        \<and> expSmoothing (calculateForecastWeights trainingData j)
          = ets (calculateModelWeights (map mb_soldQuantity trainingData) i))
      \<longleftrightarrow> (\<not> Num 0.5 < SFS_calculateVolatility (map mb_soldQuantity trainingData)
         \<and> \<not> SFS_calculateVolatility (map mb_soldQuantity trainingData) < Num 0.2
         \<and> \<not> Num 0.3 < calculateTrendStrength (map mb_soldQuantity trainingData)
         \<and> \<not> Num 0.4 < calculateSeasonalityStrength (map mb_soldQuantity trainingData)))"
  by (simp add: calculateModelWeights_def calculateForecastWeights_def
      FAS_volatility_is_SFS_volatility Let_def)

section \<open>The mean absolute percentage error\<close>

text \<open>
  C2. The claim: every retained actual is paired with the forecast of its own position.
  For actuals \<open>[0, 10]\<close> and forecasts \<open>[10, 0]\<close> the only retained actual is 10, at
  position 1, where the forecast is 0: the MAPE of the claim is 100. \<open>calculateAccuracy\<close>
  pairs it with the forecast at position 0 and returns the MAPE 0 (its MAE is 10);
  \<open>calculateMAPE\<close> returns 100 on the same pairs.
\<close>

theorem mape_pairs_by_filtered_index: "acc_mape (calculateAccuracy
        [\<lparr>sp_date = (2024, 0), sp_soldQuantity = 0, sp_revenue = 0\<rparr>,
         \<lparr>sp_date = (2024, 1), sp_soldQuantity = 10, sp_revenue = 100\<rparr>]
        [Num 10, Num 0]) = Num 0
  \<and> acc_mae (calculateAccuracy
        [\<lparr>sp_date = (2024, 0), sp_soldQuantity = 0, sp_revenue = 0\<rparr>,
         \<lparr>sp_date = (2024, 1), sp_soldQuantity = 10, sp_revenue = 100\<rparr>]
        [Num 10, Num 0]) = Num 10
  \<and> calculateMAPE [\<lparr>cmp_actual = 0, cmp_forecast = 10, cmp_date = 1\<rparr>,
                    \<lparr>cmp_actual = 10, cmp_forecast = 0, cmp_date = 2\<rparr>] = Num 100"
  by (simp add: calculateAccuracy_def calculateMAPE_def indexed_def js_nth_def minus_jsnum_def real_sum_def Let_def upt_rec)

text \<open>
  The two arrays have the same positive length, so the result is not the zero report
  of the length test.
\<close>

theorem mape_pairs_by_filtered_index_witness:
  "length [\<lparr>sp_date = (2024, 0), sp_soldQuantity = 0, sp_revenue = 0\<rparr>,
           \<lparr>sp_date = (2024, 1 :: nat), sp_soldQuantity = 10, sp_revenue = 100\<rparr>]
     = length [Num 10, Num 0]
   \<and> acc_mape (calculateAccuracy
        [\<lparr>sp_date = (2024, 0), sp_soldQuantity = 0, sp_revenue = 0\<rparr>,
         \<lparr>sp_date = (2024, 1), sp_soldQuantity = 10, sp_revenue = 100\<rparr>]
        [Num 10, Num 0]) = Num 0
   \<and> acc_mae (calculateAccuracy
        [\<lparr>sp_date = (2024, 0), sp_soldQuantity = 0, sp_revenue = 0\<rparr>,
         \<lparr>sp_date = (2024, 1), sp_soldQuantity = 10, sp_revenue = 100\<rparr>]
        [Num 10, Num 0]) = Num 10"
  using mape_pairs_by_filtered_index by simp

lemma real_sum_sum_list: "real_sum xs = sum_list xs"
proof -
  have "foldl (+) a xs = a + sum_list xs" for a :: real
    by (induction xs arbitrary: a) (simp_all add: add.assoc)
  then show ?thesis by (simp add: real_sum_def)
qed

lemma calculateMAPE_mean:
  "calculateMAPE cd =
     (if filter (\<lambda>item. cmp_actual item > 0) cd = [] then Num 0
      else Num ((\<Sum>item \<leftarrow> filter (\<lambda>item. cmp_actual item > 0) cd.
                   \<bar>cmp_actual item - cmp_forecast item\<bar> / cmp_actual item)
                / real (length (filter (\<lambda>item. cmp_actual item > 0) cd)) * 100))"
proof -
  let ?pos = "filter (\<lambda>item. cmp_actual item > 0) cd"
  have scale: "(\<Sum>item \<leftarrow> ?pos. \<bar>(cmp_actual item - cmp_forecast item) / cmp_actual item\<bar> * 100)
      = (\<Sum>item \<leftarrow> ?pos. \<bar>cmp_actual item - cmp_forecast item\<bar> / cmp_actual item) * 100"
    by (induction cd) (simp_all add: algebra_simps abs_divide)
  show ?thesis
    unfolding calculateMAPE_def Let_def real_sum_sum_list length_map scale
    by simp
qed

end
